theory Spec2Isabelle
  imports Complex_Main
begin

section \<open>The TIPP simulator of pyinsurance\<close>

text \<open>
  The repository holds two implementations of the class \<^verbatim>\<open>TIPP\<close>:
  \<^item> \<^verbatim>\<open>src/unnamed/part_000\<close>: the constructor checks the lengths of the three series,
    and \<^verbatim>\<open>run\<close> works on local arrays, a local \<^verbatim>\<open>compounded_period\<close> and a running
    \<^verbatim>\<open>discount_factor\<close>. It is modelled by \<open>init\<close>, \<open>body\<close>, \<open>loop\<close>, \<open>run\<close>.
  \<^item> \<^verbatim>\<open>src/pyinsurance/portfolio/tipp_.pyx\<close>: the length check is commented out,
    \<^verbatim>\<open>run\<close> computes the whole \<^verbatim>\<open>_discount\<close> array before the loop, divides the
    initial floor by it and decrements the attribute \<^verbatim>\<open>_compounded_period\<close>. It is
    modelled by \<open>init_vec\<close>, \<open>body_vec\<close>, \<open>loop_vec\<close>, \<open>run_vec\<close>, and once more
    with the numbers of the program by \<open>init64\<close>, \<open>body64\<close>, \<open>loop64\<close>, \<open>run64\<close>.

  Numbers: \<^verbatim>\<open>float64\<close> values are modelled by \<^typ>\<open>real\<close>, so every arithmetic step is
  exact; rounding, infinities and NaN are outside the model. An equation between two
  arithmetic results (\<open>p + (b - p) = b\<close>, or \<open>n / freq\<close> less \<open>n - 1\<close> times
  \<open>1 / freq\<close> being \<open>1 / freq\<close>) is an equation of reals; the program can miss it by the
  rounding of \<^verbatim>\<open>float64\<close>. A division by \<open>freq = 0\<close>, which \<^verbatim>\<open>part_000\<close> evaluates
  to an infinity or NaN, is outside the model as well. Where a property of the program
  depends on rounding or on NaN, it is stated in the \<^verbatim>\<open>float64\<close> model of \<^verbatim>\<open>tipp_.pyx\<close>.
  Arrays are lists.
\<close>

subsection \<open>Data\<close>

datatype error = ValueError | ZeroDivisionError | IndexError

text \<open>
  The attributes of a \<^verbatim>\<open>TIPP\<close> object. The four output arrays are \<^verbatim>\<open>None\<close> until
  \<^verbatim>\<open>run\<close> stores them. The attribute \<^verbatim>\<open>_floor\<close> is the field \<open>floor_arr\<close>.
\<close>

record tipp =
  capital :: real
  multiplier :: real
  rr :: "real list"
  rf :: "real list"
  br :: "real list"
  lock_in :: real
  min_risk_req :: real
  min_capital_req :: real
  freq :: real
  portfolio :: "real list option"
  ref_capital :: "real list option"
  margin_trigger :: "real list option"
  floor_arr :: "real list option"
  compounded_period :: real

text \<open>The object of \<^verbatim>\<open>tipp_.pyx\<close> has the attribute \<^verbatim>\<open>_discount\<close> as well.\<close>

record tipp_vec = tipp +
  discount :: "real list option"

text \<open>The four arrays that the loop of \<^verbatim>\<open>run\<close> reads and writes.\<close>

record views =
  portfolio_view :: "real list"
  ref_capital_view :: "real list"
  margin_trigger_view :: "real list"
  floor_view :: "real list"

text \<open>
  The loop state of \<^verbatim>\<open>part_000\<close>: the arrays and the two local scalars
  \<^verbatim>\<open>compounded_period\<close> and \<^verbatim>\<open>discount_factor\<close>.
\<close>

record locals = views +
  compounded_period_l :: real
  discount_factor :: real

text \<open>
  The loop state of \<^verbatim>\<open>tipp_.pyx\<close>: the arrays and the attribute
  \<^verbatim>\<open>self._compounded_period\<close>.
\<close>

record attrs = views +
  compounded_period_a :: real

subsection \<open>Arithmetic\<close>

text \<open>
  \<^verbatim>\<open>pow\<close> of libc and \<^verbatim>\<open>**\<close> of numpy, on reals. For a positive base (the case
  \<open>1 + rf * freq / 252 > 0\<close>) this is the real power function. For a base that is not
  positive the program differs (NaN for a negative base with an exponent that is not an
  integer): see \<open>fpow\<close>.
\<close>

definition pow :: "real \<Rightarrow> real \<Rightarrow> real" where
  "pow x y = x powr y"

subsection \<open>The steps of one iteration\<close>

text \<open>
  The helper methods of \<^verbatim>\<open>tipp_.pyx\<close> (lines 143-166). \<^verbatim>\<open>part_000\<close> has the same
  expressions inline (lines 134, 141, 147, 155-158, 162).
\<close>

definition should_update_lock_in :: "'a tipp_scheme \<Rightarrow> 'c views_scheme \<Rightarrow> nat \<Rightarrow> bool" where
  "should_update_lock_in t v n =
     (portfolio_view v ! n \<ge> (1 + lock_in t) * ref_capital_view v ! n)"

definition should_update_floor :: "'c views_scheme \<Rightarrow> real \<Rightarrow> nat \<Rightarrow> bool" where
  "should_update_floor v floor_cap n = (floor_cap > floor_view v ! n)"

definition should_inject_liquidity :: "'a tipp_scheme \<Rightarrow> 'c views_scheme \<Rightarrow> nat \<Rightarrow> bool" where
  "should_inject_liquidity t v n =
     (portfolio_view v ! n < ref_capital_view v ! n * min_capital_req t)"

definition get_risk_allocation_mix :: "'a tipp_scheme \<Rightarrow> 'c views_scheme \<Rightarrow> real \<Rightarrow> nat \<Rightarrow> real" where
  "get_risk_allocation_mix t v magnet n =
     max (min (multiplier t * magnet) (portfolio_view v ! n))
         (min_risk_req t * portfolio_view v ! n)"

definition update_portfolio_mix :: "'a tipp_scheme \<Rightarrow> real \<Rightarrow> real \<Rightarrow> nat \<Rightarrow> real" where
  "update_portfolio_mix t risk_alloc risk_free_alloc n =
     risk_alloc * (1 + rr t ! n) + risk_free_alloc * (1 + rf t ! n)"

text \<open>Update reference capital (\<^verbatim>\<open>part_000\<close> 134-137, \<^verbatim>\<open>tipp_.pyx\<close> 115-118).\<close>

definition update_ref_capital :: "'a tipp_scheme \<Rightarrow> nat \<Rightarrow> 'c views_scheme \<Rightarrow> 'c views_scheme" where
  "update_ref_capital t i v =
     v\<lparr>ref_capital_view := (ref_capital_view v)
          [i := (if should_update_lock_in t v (i - 1) then portfolio_view v ! (i - 1)
                 else ref_capital_view v ! (i - 1))]\<rparr>"

text \<open>
  Update floor (\<^verbatim>\<open>part_000\<close> 140-144, \<^verbatim>\<open>tipp_.pyx\<close> 120-125); \<open>d\<close> is the discount
  the iteration multiplies by: \<^verbatim>\<open>discount_factor\<close> in \<^verbatim>\<open>part_000\<close>,
  \<^verbatim>\<open>self._discount[i - 1]\<close> in \<^verbatim>\<open>tipp_.pyx\<close>.
\<close>

definition floor_cap :: "real \<Rightarrow> nat \<Rightarrow> 'c views_scheme \<Rightarrow> real" where
  "floor_cap d i v = portfolio_view v ! (i - 1) * d"

definition update_floor :: "real \<Rightarrow> nat \<Rightarrow> 'c views_scheme \<Rightarrow> 'c views_scheme" where
  "update_floor d i v =
     v\<lparr>floor_view := (floor_view v)
          [i := (if should_update_floor v (floor_cap d i v) (i - 1) then floor_cap d i v
                 else floor_view v ! (i - 1))]\<rparr>"

text \<open>
  Check for liquidity injection (\<^verbatim>\<open>part_000\<close> 147-151, \<^verbatim>\<open>tipp_.pyx\<close> 127-133). The
  three assignments read the values from before the block: \<^verbatim>\<open>capital_to_inject\<close>
  is computed first, and the three written slots are distinct. The sum stored in
  \<^verbatim>\<open>portfolio[i - 1]\<close> is exact here; the program rounds it: see \<open>inject_liquidity64\<close>.
\<close>

definition capital_to_inject :: "'a tipp_scheme \<Rightarrow> nat \<Rightarrow> 'c views_scheme \<Rightarrow> real" where
  "capital_to_inject t i v =
     ref_capital_view v ! (i - 1) * min_capital_req t - portfolio_view v ! (i - 1)"

definition inject_liquidity :: "'a tipp_scheme \<Rightarrow> nat \<Rightarrow> 'c views_scheme \<Rightarrow> 'c views_scheme" where
  "inject_liquidity t i v =
     (if should_inject_liquidity t v (i - 1) then
        v\<lparr>ref_capital_view := (ref_capital_view v)
             [i := ref_capital_view v ! (i - 1) - capital_to_inject t i v],
          portfolio_view := (portfolio_view v)
             [i - 1 := portfolio_view v ! (i - 1) + capital_to_inject t i v],
          margin_trigger_view := (margin_trigger_view v)[i := capital_to_inject t i v]\<rparr>
      else v)"

text \<open>
  Calculate allocations and update portfolio (\<^verbatim>\<open>part_000\<close> 154-162,
  \<^verbatim>\<open>tipp_.pyx\<close> 135-140). \<open>risk_allocation t i v\<close> is the local
  \<^verbatim>\<open>risk_allocation\<close> of iteration \<open>i\<close> when the arrays after the injection block
  are \<open>v\<close>.
\<close>

definition risk_allocation :: "'a tipp_scheme \<Rightarrow> nat \<Rightarrow> 'c views_scheme \<Rightarrow> real" where
  "risk_allocation t i v =
     (let magnet = portfolio_view v ! (i - 1) - floor_view v ! (i - 1)
      in get_risk_allocation_mix t v magnet (i - 1))"

definition update_portfolio :: "'a tipp_scheme \<Rightarrow> nat \<Rightarrow> 'c views_scheme \<Rightarrow> 'c views_scheme" where
  "update_portfolio t i v =
     (let risk_allocation = risk_allocation t i v;
          risk_free_allocation = portfolio_view v ! (i - 1) - risk_allocation
      in v\<lparr>portfolio_view := (portfolio_view v)
              [i := update_portfolio_mix t risk_allocation risk_free_allocation i]\<rparr>)"

text \<open>
  The array writes of iteration \<open>i\<close>, in the order of the source;
  \<open>before_allocation\<close> is the state in which the allocations are calculated, after the
  injection block.
\<close>

definition before_allocation :: "'a tipp_scheme \<Rightarrow> real \<Rightarrow> nat \<Rightarrow> 'c views_scheme \<Rightarrow> 'c views_scheme" where
  "before_allocation t d i v =
     inject_liquidity t i (update_floor d i (update_ref_capital t i v))"

definition iteration :: "'a tipp_scheme \<Rightarrow> real \<Rightarrow> nat \<Rightarrow> 'c views_scheme \<Rightarrow> 'c views_scheme" where
  "iteration t d i v = update_portfolio t i (before_allocation t d i v)"

subsection \<open>The variant of \<^verbatim>\<open>part_000\<close>\<close>

text \<open>
  \<^verbatim>\<open>__init__\<close> (lines 37-72). The file is compiled with \<^verbatim>\<open>cdivision=True\<close>, so
  \<^verbatim>\<open>self._rr.size / self._freq\<close> raises nothing.
\<close>

definition init :: "real \<Rightarrow> real \<Rightarrow> real list \<Rightarrow> real list \<Rightarrow> real list \<Rightarrow> real \<Rightarrow> real \<Rightarrow> real \<Rightarrow> real
    \<Rightarrow> error + tipp" where
  "init capital' multiplier' rr' rf' br' lock_in' min_risk_req' min_capital_req' freq' =
     (let rr_len = length rr'; rf_len = length rf'; br_len = length br'
      in if rr_len \<noteq> rf_len \<or> rr_len \<noteq> br_len then Inl ValueError
         else Inr \<lparr>capital = capital', multiplier = multiplier', rr = rr', rf = rf', br = br',
                   lock_in = lock_in', min_risk_req = min_risk_req',
                   min_capital_req = min_capital_req', freq = freq',
                   portfolio = None, ref_capital = None, margin_trigger = None,
                   floor_arr = None, compounded_period = real (length rr') / freq'\<rparr>)"

text \<open>
  The locals of \<^verbatim>\<open>run\<close> before the loop (lines 115-130). For an empty \<^verbatim>\<open>rf\<close> the read
  \<^verbatim>\<open>rf_view[0]\<close> is out of range (bounds checks are off); its value is then never used,
  as the loop does not run.
\<close>

definition entry :: "tipp \<Rightarrow> locals" where
  "entry t =
     (let n = length (rr t);
          compounded_period = real n / freq t
      in \<lparr>portfolio_view = replicate n (1 * capital t),
          ref_capital_view = replicate n (1 * capital t),
          margin_trigger_view = replicate n 0,
          floor_view = replicate n (1 * (capital t * min_capital_req t)),
          compounded_period_l = compounded_period,
          discount_factor = pow (1 + rf t ! 0 * freq t / 252) compounded_period\<rparr>)"

text \<open>The loop body (lines 133-165).\<close>

definition body :: "tipp \<Rightarrow> nat \<Rightarrow> locals \<Rightarrow> locals" where
  "body t i s =
     (let s' = iteration t (discount_factor s) i s;
          compounded_period = compounded_period_l s' - 1 / freq t
      in s'\<lparr>compounded_period_l := compounded_period,
            discount_factor := pow (1 + rf t ! i * freq t / 252) compounded_period\<rparr>)"

text \<open>
  \<open>loop t m\<close> is the state when the iterations \<open>1, ..., m - 1\<close> have run, that is the
  state in which iteration \<open>m\<close> starts; \<^verbatim>\<open>for i in range(1, n)\<close> ends in \<open>loop t n\<close>.
\<close>

definition loop :: "tipp \<Rightarrow> nat \<Rightarrow> locals" where
  "loop t m = fold (body t) [1..<m] (entry t)"

definition run :: "tipp \<Rightarrow> tipp" where
  "run t =
     (let n = length (rr t);
          s = loop t n
      in t\<lparr>portfolio := Some (portfolio_view s),
           ref_capital := Some (ref_capital_view s),
           margin_trigger := Some (margin_trigger_view s),
           floor_arr := Some (floor_view s)\<rparr>)"

subsection \<open>The variant of \<^verbatim>\<open>tipp_.pyx\<close>\<close>

text \<open>
  \<^verbatim>\<open>__init__\<close> (lines 34-70): the length check is commented out. The file has no
  \<^verbatim>\<open>cdivision\<close> directive, so the division \<^verbatim>\<open>self._rr.size / self._freq\<close> raises
  \<^verbatim>\<open>ZeroDivisionError\<close> for \<^verbatim>\<open>freq = 0\<close>.
\<close>

definition init_vec :: "real \<Rightarrow> real \<Rightarrow> real list \<Rightarrow> real list \<Rightarrow> real list \<Rightarrow> real \<Rightarrow> real \<Rightarrow> real \<Rightarrow> real
    \<Rightarrow> error + tipp_vec" where
  "init_vec capital' multiplier' rr' rf' br' lock_in' min_risk_req' min_capital_req' freq' =
     (if freq' = 0 then Inl ZeroDivisionError
      else Inr \<lparr>capital = capital', multiplier = multiplier', rr = rr', rf = rf', br = br',
                lock_in = lock_in', min_risk_req = min_risk_req',
                min_capital_req = min_capital_req', freq = freq',
                portfolio = None, ref_capital = None, margin_trigger = None,
                floor_arr = None, compounded_period = real (length rr') / freq',
                discount = None\<rparr>)"

text \<open>Line 108: the discount array, one entry for each entry of \<^verbatim>\<open>_rf\<close>.\<close>

definition discount_array :: "tipp_vec \<Rightarrow> real list" where
  "discount_array t = map (\<lambda>r. pow (1 + r * freq t / 252) (compounded_period t)) (rf t)"

text \<open>
  Lines 109-112: the arrays before the loop, and the attribute \<^verbatim>\<open>_compounded_period\<close>.
  The initial floor is a quotient of reals; where the discount is 0 or NaN the program
  stores an infinity or NaN: see \<open>entry64\<close>.
\<close>

definition entry_vec :: "tipp_vec \<Rightarrow> attrs" where
  "entry_vec t =
     (let n = length (rr t)
      in \<lparr>portfolio_view = replicate n (1 * capital t),
          ref_capital_view = replicate n (1 * capital t),
          margin_trigger_view = replicate n 0,
          floor_view = map (\<lambda>d. capital t * min_capital_req t / d) (discount_array t),
          compounded_period_a = compounded_period t\<rparr>)"

text \<open>The loop body (lines 115-141).\<close>

definition body_vec :: "tipp_vec \<Rightarrow> nat \<Rightarrow> attrs \<Rightarrow> attrs" where
  "body_vec t i s =
     (let s' = iteration t (discount_array t ! (i - 1)) i s
      in s'\<lparr>compounded_period_a := compounded_period_a s' - 1 / freq t\<rparr>)"

definition loop_vec :: "tipp_vec \<Rightarrow> nat \<Rightarrow> attrs" where
  "loop_vec t m = fold (body_vec t) [1..<m] (entry_vec t)"

text \<open>
  \<^verbatim>\<open>run\<close> (lines 102-141). The arrays are attributes of type \<^verbatim>\<open>np.ndarray\<close>, indexed
  through numpy, which checks the bounds: when \<^verbatim>\<open>_rf\<close> is shorter than \<^verbatim>\<open>_rr\<close> the
  loop raises \<^verbatim>\<open>IndexError\<close> (at \<^verbatim>\<open>self._discount[0]\<close> or \<^verbatim>\<open>self._floor[1]\<close> in
  iteration 1 when \<^verbatim>\<open>_rf\<close> has fewer than two entries, at
  \<^verbatim>\<open>self._floor[i]\<close> in iteration \<open>i = len(rf)\<close> otherwise), and \<^verbatim>\<open>1 / self._freq\<close> at
  the end of iteration 1 raises \<^verbatim>\<open>ZeroDivisionError\<close> for \<^verbatim>\<open>freq = 0\<close>. The model
  returns the exception and not the state in which it left the object.
\<close>

definition run_vec :: "tipp_vec \<Rightarrow> error + tipp_vec" where
  "run_vec t =
     (let n = length (rr t)
      in if 2 \<le> n \<and> length (rf t) < 2 then Inl IndexError
         else if 2 \<le> n \<and> freq t = 0 then Inl ZeroDivisionError
         else if 2 \<le> n \<and> length (rf t) < n then Inl IndexError
         else (let s = loop_vec t n
               in Inr (t\<lparr>discount := Some (discount_array t),
                         margin_trigger := Some (margin_trigger_view s),
                         ref_capital := Some (ref_capital_view s),
                         portfolio := Some (portfolio_view s),
                         floor_arr := Some (floor_view s),
                         compounded_period := compounded_period_a s\<rparr>)))"


subsection \<open>Example objects\<close>

text \<open>
  The zero-volatility scenario, for the constructor of \<^verbatim>\<open>part_000\<close>.
\<close>

definition zero_volatility :: tipp where
  "zero_volatility =
     \<lparr>capital = 100, multiplier = 1, rr = [0, 0, 0, 0, 0], rf = [0, 0, 0, 0, 0],
      br = [0, 0, 0, 0, 0], lock_in = 1 / 10, min_risk_req = 1 / 5, min_capital_req = 4 / 5,
      freq = 252, portfolio = None, ref_capital = None, margin_trigger = None,
      floor_arr = None, compounded_period = 5 / 252\<rparr>"

text \<open>
  An object of \<^verbatim>\<open>tipp_.pyx\<close> with one period a year and a risk-free return of 2.52
  in the first two periods, so that the base of the discount is 1.01 there.
\<close>

definition yearly_vec :: tipp_vec where
  "yearly_vec =
     \<lparr>capital = 100, multiplier = 1, rr = [0, 0, 0], rf = [252 / 100, 252 / 100, 0],
      br = [0, 0, 0], lock_in = 1 / 10, min_risk_req = 1 / 5, min_capital_req = 4 / 5,
      freq = 1, portfolio = None, ref_capital = None, margin_trigger = None,
      floor_arr = None, compounded_period = 3, discount = None\<rparr>"

text \<open>
  A call of the constructor of \<^verbatim>\<open>tipp_.pyx\<close> with \<^verbatim>\<open>rr\<close> of length 5 and \<^verbatim>\<open>rf\<close> of
  length 4, and the object it returns.
\<close>

definition unequal_vec :: tipp_vec where
  "unequal_vec =
     \<lparr>capital = 100, multiplier = 1, rr = [0, 0, 0, 0, 0], rf = [0, 0, 0, 0],
      br = [0, 0, 0, 0, 0], lock_in = 1 / 10, min_risk_req = 1 / 5, min_capital_req = 4 / 5,
      freq = 252, portfolio = None, ref_capital = None, margin_trigger = None,
      floor_arr = None, compounded_period = 5 / 252, discount = None\<rparr>"

text \<open>
  The forced-injection scenario: a risky return of \<open>- 0.9\<close> in period 1, with a multiplier
  of 3, takes the portfolio to 46, below \<open>100 * 0.8\<close>. One object for each variant.
\<close>

definition forced_injection :: tipp where
  "forced_injection =
     \<lparr>capital = 100, multiplier = 3, rr = [0, - 9 / 10, 0, 0], rf = [0, 0, 0, 0],
      br = [0, 0, 0, 0], lock_in = 1 / 10, min_risk_req = 1 / 5, min_capital_req = 4 / 5,
      freq = 252, portfolio = None, ref_capital = None, margin_trigger = None,
      floor_arr = None, compounded_period = 4 / 252\<rparr>"

definition forced_injection_vec :: tipp_vec where
  "forced_injection_vec =
     \<lparr>capital = 100, multiplier = 3, rr = [0, - 9 / 10, 0, 0], rf = [0, 0, 0, 0],
      br = [0, 0, 0, 0], lock_in = 1 / 10, min_risk_req = 1 / 5, min_capital_req = 4 / 5,
      freq = 252, portfolio = None, ref_capital = None, margin_trigger = None,
      floor_arr = None, compounded_period = 4 / 252, discount = None\<rparr>"

text \<open>
  Risky returns of \<open>- 10\<close> (a loss of ten times the position) in periods 1 and 2, in an
  otherwise ordinary configuration.
\<close>

definition crash :: tipp where
  "crash =
     \<lparr>capital = 100, multiplier = 1, rr = [0, - 10, - 10, 0], rf = [0, 0, 0, 0],
      br = [0, 0, 0, 0], lock_in = 1 / 10, min_risk_req = 1 / 5, min_capital_req = 4 / 5,
      freq = 252, portfolio = None, ref_capital = None, margin_trigger = None,
      floor_arr = None, compounded_period = 4 / 252\<rparr>"

subsection \<open>A \<^verbatim>\<open>float64\<close> model of \<^verbatim>\<open>tipp_.pyx\<close>\<close>

text \<open>
  The variant of \<^verbatim>\<open>tipp_.pyx\<close> once more, with the numbers of the program: a value of type
  \<open>f64\<close> is a finite binary64 number, an infinity or NaN, and every arithmetic operation
  rounds its exact result to the nearest binary64 number, ties to even, with gradual
  underflow and overflow to infinity. Zero has no sign here, and \<open>fpow\<close> is the rounded
  real power, which a C library attains to within one unit in the last place (and exactly
  for the base 1 and the exponent 0). The definitions below follow the same source lines
  as \<open>init_vec\<close> to \<open>run_vec\<close>, operation by operation.
\<close>

datatype f64 = Num real | PInf | NInf | NaN

text \<open>
  \<open>scale n x\<close> is the binary exponent \<open>e\<close> of \<open>x \<noteq> 0\<close>, with
  \<open>2 ^ e \<le> \<bar>x\<bar> < 2 ^ (e + 1)\<close>, found in at most \<open>n\<close> steps.
\<close>

fun scale :: "nat \<Rightarrow> real \<Rightarrow> int" where
  "scale 0 x = 0"
| "scale (Suc n) x =
     (if 2 \<le> \<bar>x\<bar> then scale n (x / 2) + 1
      else if \<bar>x\<bar> < 1 then scale n (2 * x) - 1
      else 0)"

definition pow2 :: "int \<Rightarrow> real" where
  "pow2 k = (if 0 \<le> k then 2 ^ nat k else 1 / 2 ^ nat (- k))"

text \<open>The nearest integer, the even one of two nearest.\<close>

definition round_even :: "real \<Rightarrow> int" where
  "round_even q =
     (let f = \<lfloor>q\<rfloor>
      in if q - of_int f < 1 / 2 then f
         else if 1 / 2 < q - of_int f then f + 1
         else if even f then f else f + 1)"

text \<open>
  Rounding to binary64: 53 significant bits, the unit in the last place not below
  \<open>2 ^ - 1074\<close>, and an infinity from \<open>2 ^ 1024\<close> on.
\<close>

definition round64 :: "real \<Rightarrow> f64" where
  "round64 x =
     (if x = 0 then Num 0
      else
        (let e = scale 2200 x;
             u = pow2 (max e (- 1022) - 52);
             r = of_int (round_even (x / u)) * u
         in if e < 1023 then Num r
            else if pow2 1024 \<le> \<bar>r\<bar> then (if 0 < x then PInf else NInf)
            else Num r))"

fun fneg :: "f64 \<Rightarrow> f64" where
  "fneg (Num x) = Num (- x)"
| "fneg PInf = NInf"
| "fneg NInf = PInf"
| "fneg NaN = NaN"

fun fadd :: "f64 \<Rightarrow> f64 \<Rightarrow> f64" where
  "fadd (Num x) (Num y) = round64 (x + y)"
| "fadd NaN b = NaN"
| "fadd a NaN = NaN"
| "fadd PInf NInf = NaN"
| "fadd NInf PInf = NaN"
| "fadd PInf b = PInf"
| "fadd a PInf = PInf"
| "fadd NInf b = NInf"
| "fadd a NInf = NInf"

definition fsub :: "f64 \<Rightarrow> f64 \<Rightarrow> f64" where
  "fsub a b = fadd a (fneg b)"

text \<open>The sign of a value that is not NaN: 1, 0 or - 1.\<close>

fun fsgn :: "f64 \<Rightarrow> int" where
  "fsgn (Num x) = (if 0 < x then 1 else if x < 0 then - 1 else 0)"
| "fsgn PInf = 1"
| "fsgn NInf = - 1"
| "fsgn NaN = 0"

definition signed_inf :: "int \<Rightarrow> f64" where
  "signed_inf s = (if 0 < s then PInf else if s < 0 then NInf else NaN)"

fun fmul :: "f64 \<Rightarrow> f64 \<Rightarrow> f64" where
  "fmul (Num x) (Num y) = round64 (x * y)"
| "fmul NaN b = NaN"
| "fmul a NaN = NaN"
| "fmul a b = signed_inf (fsgn a * fsgn b)"

fun fdiv :: "f64 \<Rightarrow> f64 \<Rightarrow> f64" where
  "fdiv (Num x) (Num y) = (if y = 0 then signed_inf (fsgn (Num x)) else round64 (x / y))"
| "fdiv NaN b = NaN"
| "fdiv a NaN = NaN"
| "fdiv (Num x) b = Num 0"
| "fdiv a (Num y) = (if y < 0 then fneg a else a)"
| "fdiv a b = NaN"

text \<open>The comparisons \<^verbatim>\<open><\<close> and \<^verbatim>\<open>>=\<close>: false when an operand is NaN.\<close>

fun flt :: "f64 \<Rightarrow> f64 \<Rightarrow> bool" where
  "flt (Num x) (Num y) = (x < y)"
| "flt NaN b = False"
| "flt a NaN = False"
| "flt PInf b = False"
| "flt a NInf = False"
| "flt a b = True"

fun fge :: "f64 \<Rightarrow> f64 \<Rightarrow> bool" where
  "fge (Num x) (Num y) = (y \<le> x)"
| "fge NaN b = False"
| "fge a NaN = False"
| "fge PInf b = True"
| "fge a NInf = True"
| "fge a b = False"

text \<open>\<^verbatim>\<open>fmin\<close> and \<^verbatim>\<open>fmax\<close> of libc: of a NaN and a number, the number.\<close>

fun fmin :: "f64 \<Rightarrow> f64 \<Rightarrow> f64" where
  "fmin NaN b = b"
| "fmin a NaN = a"
| "fmin a b = (if flt b a then b else a)"

fun fmax :: "f64 \<Rightarrow> f64 \<Rightarrow> f64" where
  "fmax NaN b = b"
| "fmax a NaN = a"
| "fmax a b = (if flt a b then b else a)"

text \<open>
  \<^verbatim>\<open>**\<close> of numpy, that is \<^verbatim>\<open>pow\<close> of C, for finite arguments: 1 for the exponent 0 and
  for the base 1, NaN for a negative base with an exponent that is not an integer. An
  infinite argument, for which C has further cases, is NaN here.
\<close>

fun fpow :: "f64 \<Rightarrow> f64 \<Rightarrow> f64" where
  "fpow (Num x) (Num y) =
     (if y = 0 then Num 1
      else if x = 1 then Num 1
      else if 0 < x then round64 (x powr y)
      else if x = 0 then (if 0 < y then Num 0 else PInf)
      else if y = of_int \<lfloor>y\<rfloor>
        then (if even \<lfloor>y\<rfloor> then round64 ((- x) powr y) else round64 (- ((- x) powr y)))
      else NaN)"
| "fpow a b = NaN"

text \<open>The attributes of the object, as binary64 numbers.\<close>

record tipp64 =
  capital64 :: f64
  multiplier64 :: f64
  rr64 :: "f64 list"
  rf64 :: "f64 list"
  br64 :: "f64 list"
  lock_in64 :: f64
  min_risk_req64 :: f64
  min_capital_req64 :: f64
  freq64 :: f64
  portfolio64 :: "f64 list option"
  ref_capital64 :: "f64 list option"
  margin_trigger64 :: "f64 list option"
  discount64 :: "f64 list option"
  floor64 :: "f64 list option"
  compounded_period64 :: f64

text \<open>The arrays and the compounded period during the loop.\<close>

record attrs64 =
  portfolio_s :: "f64 list"
  ref_capital_s :: "f64 list"
  margin_trigger_s :: "f64 list"
  floor_s :: "f64 list"
  compounded_period_s :: f64

text \<open>\<^verbatim>\<open>__init__\<close> (lines 34-70); the length of \<^verbatim>\<open>rr\<close> converts to binary64 exactly.\<close>

definition init64 :: "f64 \<Rightarrow> f64 \<Rightarrow> f64 list \<Rightarrow> f64 list \<Rightarrow> f64 list \<Rightarrow> f64 \<Rightarrow> f64 \<Rightarrow> f64 \<Rightarrow> f64
    \<Rightarrow> error + tipp64" where
  "init64 capital' multiplier' rr' rf' br' lock_in' min_risk_req' min_capital_req' freq' =
     (if freq' = Num 0 then Inl ZeroDivisionError
      else Inr \<lparr>capital64 = capital', multiplier64 = multiplier', rr64 = rr', rf64 = rf',
                br64 = br', lock_in64 = lock_in', min_risk_req64 = min_risk_req',
                min_capital_req64 = min_capital_req', freq64 = freq',
                portfolio64 = None, ref_capital64 = None, margin_trigger64 = None,
                discount64 = None, floor64 = None,
                compounded_period64 = fdiv (Num (real (length rr'))) freq'\<rparr>)"

text \<open>The helper methods (lines 143-166).\<close>

definition should_update_lock_in64 :: "tipp64 \<Rightarrow> attrs64 \<Rightarrow> nat \<Rightarrow> bool" where
  "should_update_lock_in64 t s n =
     fge (portfolio_s s ! n) (fmul (fadd (Num 1) (lock_in64 t)) (ref_capital_s s ! n))"

definition should_update_floor64 :: "attrs64 \<Rightarrow> f64 \<Rightarrow> nat \<Rightarrow> bool" where
  "should_update_floor64 s floor_cap' n = flt (floor_s s ! n) floor_cap'"

definition should_inject_liquidity64 :: "tipp64 \<Rightarrow> attrs64 \<Rightarrow> nat \<Rightarrow> bool" where
  "should_inject_liquidity64 t s n =
     flt (portfolio_s s ! n) (fmul (ref_capital_s s ! n) (min_capital_req64 t))"

definition get_risk_allocation_mix64 :: "tipp64 \<Rightarrow> attrs64 \<Rightarrow> f64 \<Rightarrow> nat \<Rightarrow> f64" where
  "get_risk_allocation_mix64 t s magnet n =
     fmax (fmin (fmul (multiplier64 t) magnet) (portfolio_s s ! n))
          (fmul (min_risk_req64 t) (portfolio_s s ! n))"

definition update_portfolio_mix64 :: "tipp64 \<Rightarrow> f64 \<Rightarrow> f64 \<Rightarrow> nat \<Rightarrow> f64" where
  "update_portfolio_mix64 t risk_alloc risk_free_alloc n =
     fadd (fmul risk_alloc (fadd (Num 1) (rr64 t ! n)))
          (fmul risk_free_alloc (fadd (Num 1) (rf64 t ! n)))"

text \<open>Line 108.\<close>

definition discount_array64 :: "tipp64 \<Rightarrow> f64 list" where
  "discount_array64 t =
     map (\<lambda>r. fpow (fadd (Num 1) (fdiv (fmul r (freq64 t)) (Num 252))) (compounded_period64 t))
       (rf64 t)"

text \<open>Lines 109-112.\<close>

definition entry64 :: "tipp64 \<Rightarrow> attrs64" where
  "entry64 t =
     (let n = length (rr64 t)
      in \<lparr>portfolio_s = replicate n (fmul (Num 1) (capital64 t)),
          ref_capital_s = replicate n (fmul (Num 1) (capital64 t)),
          margin_trigger_s = replicate n (Num 0),
          floor_s = map (\<lambda>d. fdiv (fmul (capital64 t) (min_capital_req64 t)) d)
                      (discount_array64 t),
          compounded_period_s = compounded_period64 t\<rparr>)"

text \<open>Lines 115-118.\<close>

definition update_ref_capital64 :: "tipp64 \<Rightarrow> nat \<Rightarrow> attrs64 \<Rightarrow> attrs64" where
  "update_ref_capital64 t i s =
     s\<lparr>ref_capital_s := (ref_capital_s s)
          [i := (if should_update_lock_in64 t s (i - 1) then portfolio_s s ! (i - 1)
                 else ref_capital_s s ! (i - 1))]\<rparr>"

text \<open>Lines 120-125.\<close>

definition floor_cap64 :: "tipp64 \<Rightarrow> nat \<Rightarrow> attrs64 \<Rightarrow> f64" where
  "floor_cap64 t i s = fmul (portfolio_s s ! (i - 1)) (discount_array64 t ! (i - 1))"

definition update_floor64 :: "tipp64 \<Rightarrow> nat \<Rightarrow> attrs64 \<Rightarrow> attrs64" where
  "update_floor64 t i s =
     s\<lparr>floor_s := (floor_s s)
          [i := (if should_update_floor64 s (floor_cap64 t i s) (i - 1) then floor_cap64 t i s
                 else floor_s s ! (i - 1))]\<rparr>"

text \<open>Lines 127-133.\<close>

definition capital_to_inject64 :: "tipp64 \<Rightarrow> nat \<Rightarrow> attrs64 \<Rightarrow> f64" where
  "capital_to_inject64 t i s =
     fsub (fmul (ref_capital_s s ! (i - 1)) (min_capital_req64 t)) (portfolio_s s ! (i - 1))"

definition inject_liquidity64 :: "tipp64 \<Rightarrow> nat \<Rightarrow> attrs64 \<Rightarrow> attrs64" where
  "inject_liquidity64 t i s =
     (if should_inject_liquidity64 t s (i - 1) then
        s\<lparr>ref_capital_s := (ref_capital_s s)
             [i := fsub (ref_capital_s s ! (i - 1)) (capital_to_inject64 t i s)],
          portfolio_s := (portfolio_s s)
             [i - 1 := fadd (portfolio_s s ! (i - 1)) (capital_to_inject64 t i s)],
          margin_trigger_s := (margin_trigger_s s)[i := capital_to_inject64 t i s]\<rparr>
      else s)"

text \<open>Lines 135-140.\<close>

definition update_portfolio64 :: "tipp64 \<Rightarrow> nat \<Rightarrow> attrs64 \<Rightarrow> attrs64" where
  "update_portfolio64 t i s =
     (let magnet = fsub (portfolio_s s ! (i - 1)) (floor_s s ! (i - 1));
          risk_allocation = get_risk_allocation_mix64 t s magnet (i - 1);
          risk_free_allocation = fsub (portfolio_s s ! (i - 1)) risk_allocation
      in s\<lparr>portfolio_s := (portfolio_s s)
              [i := update_portfolio_mix64 t risk_allocation risk_free_allocation i]\<rparr>)"

text \<open>The loop body (lines 115-141).\<close>

definition body64 :: "tipp64 \<Rightarrow> nat \<Rightarrow> attrs64 \<Rightarrow> attrs64" where
  "body64 t i s =
     (let s' = update_portfolio64 t i
                 (inject_liquidity64 t i (update_floor64 t i (update_ref_capital64 t i s)))
      in s'\<lparr>compounded_period_s := fsub (compounded_period_s s') (fdiv (Num 1) (freq64 t))\<rparr>)"

definition loop64 :: "tipp64 \<Rightarrow> nat \<Rightarrow> attrs64" where
  "loop64 t m = fold (body64 t) [1..<m] (entry64 t)"

text \<open>\<^verbatim>\<open>run\<close> (lines 102-141), with the exceptions of \<open>run_vec\<close>.\<close>

definition run64 :: "tipp64 \<Rightarrow> error + tipp64" where
  "run64 t =
     (let n = length (rr64 t)
      in if 2 \<le> n \<and> length (rf64 t) < 2 then Inl IndexError
         else if 2 \<le> n \<and> freq64 t = Num 0 then Inl ZeroDivisionError
         else if 2 \<le> n \<and> length (rf64 t) < n then Inl IndexError
         else (let s = loop64 t n
               in Inr (t\<lparr>discount64 := Some (discount_array64 t),
                         margin_trigger64 := Some (margin_trigger_s s),
                         ref_capital64 := Some (ref_capital_s s),
                         portfolio64 := Some (portfolio_s s),
                         floor64 := Some (floor_s s),
                         compounded_period64 := compounded_period_s s\<rparr>)))"

text \<open>
  The call \<^verbatim>\<open>TIPP(100, 5, [0, .37, -.85, -.82], [0, 0, 0, 0], [0, 0, 0, 0], .1, .2, .8, 252)\<close>:
  each decimal is the binary64 number nearest to it.
\<close>

definition rounded64 :: tipp64 where
  "rounded64 =
     \<lparr>capital64 = Num 100, multiplier64 = Num 5,
      rr64 = [Num 0, Num (3332663724254167 / 9007199254740992),
              Num (- (7656119366529843 / 9007199254740992)),
              Num (- (7385903388887613 / 9007199254740992))],
      rf64 = [Num 0, Num 0, Num 0, Num 0], br64 = [Num 0, Num 0, Num 0, Num 0],
      lock_in64 = Num (3602879701896397 / 36028797018963968),
      min_risk_req64 = Num (3602879701896397 / 18014398509481984),
      min_capital_req64 = Num (3602879701896397 / 4503599627370496),
      freq64 = Num 252, portfolio64 = None, ref_capital64 = None, margin_trigger64 = None,
      discount64 = None, floor64 = None,
      compounded_period64 = Num (285942833483841 / 18014398509481984)\<rparr>"

text \<open>
  The call \<^verbatim>\<open>TIPP(100, 1, [0, 0, 0], [-2, -2, -2], [0, 0, 0], .1, .2, .8, 252)\<close>: the base of
  the discount is \<open>1 + (- 2) * 252 / 252 = - 1\<close>.
\<close>

definition negative_base64 :: tipp64 where
  "negative_base64 =
     \<lparr>capital64 = Num 100, multiplier64 = Num 1, rr64 = [Num 0, Num 0, Num 0],
      rf64 = [Num (- 2), Num (- 2), Num (- 2)], br64 = [Num 0, Num 0, Num 0],
      lock_in64 = Num (3602879701896397 / 36028797018963968),
      min_risk_req64 = Num (3602879701896397 / 18014398509481984),
      min_capital_req64 = Num (3602879701896397 / 4503599627370496),
      freq64 = Num 252, portfolio64 = None, ref_capital64 = None, margin_trigger64 = None,
      discount64 = None, floor64 = None,
      compounded_period64 = Num (857828500451523 / 72057594037927936)\<rparr>"

section \<open>Properties of one iteration\<close>

lemmas step_defs =
  iteration_def before_allocation_def update_portfolio_def risk_allocation_def
  inject_liquidity_def capital_to_inject_def update_floor_def floor_cap_def
  update_ref_capital_def update_portfolio_mix_def get_risk_allocation_mix_def
  should_inject_liquidity_def should_update_floor_def should_update_lock_in_def

text \<open>The four steps, array by array.\<close>

lemma update_ref_capital_views:
  "portfolio_view (update_ref_capital t i v) = portfolio_view v"
  "margin_trigger_view (update_ref_capital t i v) = margin_trigger_view v"
  "floor_view (update_ref_capital t i v) = floor_view v"
  "ref_capital_view (update_ref_capital t i v) = (ref_capital_view v)
     [i := (if (1 + lock_in t) * ref_capital_view v ! (i - 1) \<le> portfolio_view v ! (i - 1)
            then portfolio_view v ! (i - 1) else ref_capital_view v ! (i - 1))]"
  by (simp_all add: update_ref_capital_def should_update_lock_in_def)

lemma update_floor_views:
  "portfolio_view (update_floor d i v) = portfolio_view v"
  "margin_trigger_view (update_floor d i v) = margin_trigger_view v"
  "ref_capital_view (update_floor d i v) = ref_capital_view v"
  "floor_view (update_floor d i v) = (floor_view v)
     [i := (if floor_view v ! (i - 1) < portfolio_view v ! (i - 1) * d
            then portfolio_view v ! (i - 1) * d else floor_view v ! (i - 1))]"
  by (simp_all add: update_floor_def should_update_floor_def floor_cap_def)

lemma inject_liquidity_views:
  "floor_view (inject_liquidity t i v) = floor_view v"
  "portfolio_view (inject_liquidity t i v) =
     (if portfolio_view v ! (i - 1) < ref_capital_view v ! (i - 1) * min_capital_req t
      then (portfolio_view v)[i - 1 := ref_capital_view v ! (i - 1) * min_capital_req t]
      else portfolio_view v)"
  "ref_capital_view (inject_liquidity t i v) =
     (if portfolio_view v ! (i - 1) < ref_capital_view v ! (i - 1) * min_capital_req t
      then (ref_capital_view v)[i := ref_capital_view v ! (i - 1)
             - (ref_capital_view v ! (i - 1) * min_capital_req t - portfolio_view v ! (i - 1))]
      else ref_capital_view v)"
  "margin_trigger_view (inject_liquidity t i v) =
     (if portfolio_view v ! (i - 1) < ref_capital_view v ! (i - 1) * min_capital_req t
      then (margin_trigger_view v)
             [i := ref_capital_view v ! (i - 1) * min_capital_req t - portfolio_view v ! (i - 1)]
      else margin_trigger_view v)"
  by (simp_all add: inject_liquidity_def should_inject_liquidity_def capital_to_inject_def)

lemma update_portfolio_views:
  "floor_view (update_portfolio t i v) = floor_view v"
  "ref_capital_view (update_portfolio t i v) = ref_capital_view v"
  "margin_trigger_view (update_portfolio t i v) = margin_trigger_view v"
  "portfolio_view (update_portfolio t i v) = (portfolio_view v)
     [i := risk_allocation t i v * (1 + rr t ! i)
           + (portfolio_view v ! (i - 1) - risk_allocation t i v) * (1 + rf t ! i)]"
  by (simp_all add: update_portfolio_def update_portfolio_mix_def Let_def)

lemma step_more:
  "views.more (update_ref_capital t i v) = views.more v"
  "views.more (update_floor d i v) = views.more v"
  "views.more (inject_liquidity t i v) = views.more v"
  "views.more (update_portfolio t i v) = views.more v"
  by (simp_all add: update_ref_capital_def update_floor_def inject_liquidity_def
      update_portfolio_def Let_def)

lemmas step_views =
  update_ref_capital_views update_floor_views inject_liquidity_views update_portfolio_views

text \<open>The arrays in which the allocations of iteration \<open>i\<close> are calculated.\<close>

lemma before_allocation_floor:
  "floor_view (before_allocation t d i v) = (floor_view v)
     [i := (if floor_view v ! (i - 1) < portfolio_view v ! (i - 1) * d
            then portfolio_view v ! (i - 1) * d else floor_view v ! (i - 1))]"
  by (simp add: before_allocation_def step_views)

lemma before_allocation_portfolio:
  assumes "1 \<le> i"
  shows "portfolio_view (before_allocation t d i v) =
     (if portfolio_view v ! (i - 1) < ref_capital_view v ! (i - 1) * min_capital_req t
      then (portfolio_view v)[i - 1 := ref_capital_view v ! (i - 1) * min_capital_req t]
      else portfolio_view v)"
  using assms by (simp add: before_allocation_def step_views)

lemma before_allocation_margin_trigger:
  assumes "1 \<le> i"
  shows "margin_trigger_view (before_allocation t d i v) =
     (if portfolio_view v ! (i - 1) < ref_capital_view v ! (i - 1) * min_capital_req t
      then (margin_trigger_view v)
             [i := ref_capital_view v ! (i - 1) * min_capital_req t - portfolio_view v ! (i - 1)]
      else margin_trigger_view v)"
  using assms by (simp add: before_allocation_def step_views)

lemma before_allocation_ref_capital:
  assumes "1 \<le> i"
  shows "ref_capital_view (before_allocation t d i v) = (ref_capital_view v)
     [i := (if portfolio_view v ! (i - 1) < ref_capital_view v ! (i - 1) * min_capital_req t
            then ref_capital_view v ! (i - 1)
              - (ref_capital_view v ! (i - 1) * min_capital_req t - portfolio_view v ! (i - 1))
            else if (1 + lock_in t) * ref_capital_view v ! (i - 1) \<le> portfolio_view v ! (i - 1)
            then portfolio_view v ! (i - 1) else ref_capital_view v ! (i - 1))]"
  using assms by (simp add: before_allocation_def step_views)

lemma before_allocation_more:
  "views.more (before_allocation t d i v) = views.more v"
  by (simp add: before_allocation_def step_more)

text \<open>An iteration keeps the lengths of the four arrays.\<close>

lemma iteration_length:
  "length (portfolio_view (iteration t d i v)) = length (portfolio_view v)"
  "length (ref_capital_view (iteration t d i v)) = length (ref_capital_view v)"
  "length (margin_trigger_view (iteration t d i v)) = length (margin_trigger_view v)"
  "length (floor_view (iteration t d i v)) = length (floor_view v)"
  by (simp_all add: iteration_def before_allocation_def step_views)

lemma iteration_more:
  "views.more (iteration t d i v) = views.more v"
  by (simp add: iteration_def before_allocation_more step_more)

text \<open>Iteration \<open>i\<close> writes the slots \<open>i\<close>, and slot \<open>i - 1\<close> of the portfolio, only.\<close>

lemma iteration_frame:
  "j \<noteq> i \<Longrightarrow> ref_capital_view (iteration t d i v) ! j = ref_capital_view v ! j"
  "j \<noteq> i \<Longrightarrow> margin_trigger_view (iteration t d i v) ! j = margin_trigger_view v ! j"
  "j \<noteq> i \<Longrightarrow> floor_view (iteration t d i v) ! j = floor_view v ! j"
  "j \<noteq> i \<Longrightarrow> j \<noteq> i - 1 \<Longrightarrow> portfolio_view (iteration t d i v) ! j = portfolio_view v ! j"
  by (simp_all add: iteration_def before_allocation_def step_views)

text \<open>What iteration \<open>i\<close> writes.\<close>

lemma iteration_floor:
  assumes "1 \<le> i" "i < length (floor_view v)"
  shows "floor_view (iteration t d i v) ! i =
    (if floor_view v ! (i - 1) < portfolio_view v ! (i - 1) * d
     then portfolio_view v ! (i - 1) * d else floor_view v ! (i - 1))"
  using assms by (simp add: iteration_def update_portfolio_views before_allocation_floor)

lemma iteration_margin_trigger:
  assumes "1 \<le> i" "i < length (margin_trigger_view v)"
  shows "margin_trigger_view (iteration t d i v) ! i =
    (if portfolio_view v ! (i - 1) < ref_capital_view v ! (i - 1) * min_capital_req t
     then ref_capital_view v ! (i - 1) * min_capital_req t - portfolio_view v ! (i - 1)
     else margin_trigger_view v ! i)"
  using assms
  by (simp add: iteration_def update_portfolio_views before_allocation_margin_trigger)

lemma iteration_ref_capital:
  assumes "1 \<le> i" "i < length (ref_capital_view v)"
  shows "ref_capital_view (iteration t d i v) ! i =
    (if portfolio_view v ! (i - 1) < ref_capital_view v ! (i - 1) * min_capital_req t
     then ref_capital_view v ! (i - 1)
          - (ref_capital_view v ! (i - 1) * min_capital_req t - portfolio_view v ! (i - 1))
     else if (1 + lock_in t) * ref_capital_view v ! (i - 1) \<le> portfolio_view v ! (i - 1)
     then portfolio_view v ! (i - 1) else ref_capital_view v ! (i - 1))"
  using assms
  by (simp add: iteration_def update_portfolio_views before_allocation_ref_capital)

lemma iteration_portfolio_prev:
  assumes "1 \<le> i" "i - 1 < length (portfolio_view v)"
  shows "portfolio_view (iteration t d i v) ! (i - 1) =
    (if portfolio_view v ! (i - 1) < ref_capital_view v ! (i - 1) * min_capital_req t
     then ref_capital_view v ! (i - 1) * min_capital_req t
     else portfolio_view v ! (i - 1))"
  using assms
  by (simp add: iteration_def update_portfolio_views before_allocation_portfolio)

lemma iteration_portfolio:
  assumes "1 \<le> i" "i < length (portfolio_view v)"
  shows "portfolio_view (iteration t d i v) ! i =
    risk_allocation t i (before_allocation t d i v) * (1 + rr t ! i)
    + (portfolio_view (iteration t d i v) ! (i - 1)
       - risk_allocation t i (before_allocation t d i v)) * (1 + rf t ! i)"
  using assms
  by (simp add: iteration_def update_portfolio_views before_allocation_portfolio)

section \<open>Properties of the loop of \<^verbatim>\<open>part_000\<close>\<close>

lemma iteration_locals:
  "compounded_period_l (iteration t d i s) = compounded_period_l s"
  "discount_factor (iteration t d i s) = discount_factor s"
  by (simp_all add: iteration_def before_allocation_def update_ref_capital_def update_floor_def
      inject_liquidity_def update_portfolio_def Let_def)

lemma body_views:
  "portfolio_view (body t i s) = portfolio_view (iteration t (discount_factor s) i s)"
  "ref_capital_view (body t i s) = ref_capital_view (iteration t (discount_factor s) i s)"
  "margin_trigger_view (body t i s) = margin_trigger_view (iteration t (discount_factor s) i s)"
  "floor_view (body t i s) = floor_view (iteration t (discount_factor s) i s)"
  by (simp_all add: body_def Let_def)

lemma body_locals:
  "compounded_period_l (body t i s) = compounded_period_l s - 1 / freq t"
  "discount_factor (body t i s) =
     pow (1 + rf t ! i * freq t / 252) (compounded_period_l s - 1 / freq t)"
  by (simp_all add: body_def Let_def iteration_locals)

lemma loop_0 [simp]: "loop t 0 = entry t"
  by (simp add: loop_def)

lemma loop_1 [simp]: "loop t (Suc 0) = entry t"
  by (simp add: loop_def)

lemma loop_Suc: "1 \<le> m \<Longrightarrow> loop t (Suc m) = body t m (loop t m)"
  by (simp add: loop_def)

lemma entry_length:
  "length (portfolio_view (entry t)) = length (rr t)"
  "length (ref_capital_view (entry t)) = length (rr t)"
  "length (margin_trigger_view (entry t)) = length (rr t)"
  "length (floor_view (entry t)) = length (rr t)"
  by (simp_all add: entry_def Let_def)

lemma loop_length:
  "length (portfolio_view (loop t m)) = length (rr t)
   \<and> length (ref_capital_view (loop t m)) = length (rr t)
   \<and> length (margin_trigger_view (loop t m)) = length (rr t)
   \<and> length (floor_view (loop t m)) = length (rr t)"
proof (induction m)
  case 0
  show ?case by (simp add: entry_length)
next
  case (Suc m)
  show ?case
  proof (cases "1 \<le> m")
    case True
    with Suc show ?thesis by (simp add: loop_Suc body_views iteration_length)
  next
    case False
    then have "m = 0" by simp
    then show ?thesis by (simp add: entry_length)
  qed
qed

text \<open>Before iteration \<open>m\<close> the slots from \<open>m\<close> on hold their initial values.\<close>

lemma loop_untouched:
  assumes "1 \<le> m" "m \<le> j"
  shows "portfolio_view (loop t m) ! j = portfolio_view (entry t) ! j
   \<and> ref_capital_view (loop t m) ! j = ref_capital_view (entry t) ! j
   \<and> margin_trigger_view (loop t m) ! j = margin_trigger_view (entry t) ! j
   \<and> floor_view (loop t m) ! j = floor_view (entry t) ! j"
  using assms
proof (induction m)
  case 0
  then show ?case by simp
next
  case (Suc m)
  show ?case
  proof (cases "1 \<le> m")
    case True
    with Suc have "m \<le> j" "j \<noteq> m" "j \<noteq> m - 1" by simp_all
    with Suc True show ?thesis by (simp add: loop_Suc body_views iteration_frame)
  next
    case False
    then have "m = 0" by simp
    then show ?thesis by simp
  qed
qed

text \<open>
  Once iteration \<open>j\<close> has run, slot \<open>j\<close> of the reference capital, the margin trigger
  and the floor is final; slot \<open>j\<close> of the portfolio is final once iteration \<open>j + 1\<close>
  has run.
\<close>

lemma loop_final:
  assumes "Suc j \<le> m"
  shows "ref_capital_view (loop t m) ! j = ref_capital_view (loop t (Suc j)) ! j
   \<and> margin_trigger_view (loop t m) ! j = margin_trigger_view (loop t (Suc j)) ! j
   \<and> floor_view (loop t m) ! j = floor_view (loop t (Suc j)) ! j"
  using assms
proof (induction m)
  case 0
  then show ?case by simp
next
  case (Suc m)
  show ?case
  proof (cases "Suc j \<le> m")
    case True
    then have "1 \<le> m" "j \<noteq> m" by simp_all
    with Suc True show ?thesis by (simp add: loop_Suc body_views iteration_frame)
  next
    case False
    with Suc.prems have "m = j" by simp
    then show ?thesis by simp
  qed
qed

lemma loop_final_portfolio:
  assumes "Suc (Suc j) \<le> m"
  shows "portfolio_view (loop t m) ! j = portfolio_view (loop t (Suc (Suc j))) ! j"
  using assms
proof (induction m)
  case 0
  then show ?case by simp
next
  case (Suc m)
  show ?case
  proof (cases "Suc (Suc j) \<le> m")
    case True
    then have "1 \<le> m" "j \<noteq> m" "j \<noteq> m - 1" by simp_all
    with Suc True show ?thesis by (simp add: loop_Suc body_views iteration_frame)
  next
    case False
    with Suc.prems have "m = Suc j" by simp
    then show ?thesis by simp
  qed
qed

lemma run_outputs:
  "portfolio (run t) = Some (portfolio_view (loop t (length (rr t))))"
  "ref_capital (run t) = Some (ref_capital_view (loop t (length (rr t))))"
  "margin_trigger (run t) = Some (margin_trigger_view (loop t (length (rr t))))"
  "floor_arr (run t) = Some (floor_view (loop t (length (rr t))))"
  "compounded_period (run t) = compounded_period t"
  by (simp_all add: run_def Let_def)

section \<open>Properties of the loop of \<^verbatim>\<open>tipp_.pyx\<close>\<close>

lemma iteration_attrs:
  "compounded_period_a (iteration t d i s) = compounded_period_a s"
  by (simp add: iteration_def before_allocation_def update_ref_capital_def update_floor_def
      inject_liquidity_def update_portfolio_def Let_def)

lemma body_vec_views:
  "portfolio_view (body_vec t i s) = portfolio_view (iteration t (discount_array t ! (i - 1)) i s)"
  "ref_capital_view (body_vec t i s)
     = ref_capital_view (iteration t (discount_array t ! (i - 1)) i s)"
  "margin_trigger_view (body_vec t i s)
     = margin_trigger_view (iteration t (discount_array t ! (i - 1)) i s)"
  "floor_view (body_vec t i s) = floor_view (iteration t (discount_array t ! (i - 1)) i s)"
  by (simp_all add: body_vec_def Let_def)

lemma body_vec_attrs:
  "compounded_period_a (body_vec t i s) = compounded_period_a s - 1 / freq t"
  by (simp add: body_vec_def Let_def iteration_attrs)

lemma loop_vec_0 [simp]: "loop_vec t 0 = entry_vec t"
  by (simp add: loop_vec_def)

lemma loop_vec_1 [simp]: "loop_vec t (Suc 0) = entry_vec t"
  by (simp add: loop_vec_def)

lemma loop_vec_Suc: "1 \<le> m \<Longrightarrow> loop_vec t (Suc m) = body_vec t m (loop_vec t m)"
  by (simp add: loop_vec_def)

lemma entry_vec_length:
  "length (portfolio_view (entry_vec t)) = length (rr t)"
  "length (ref_capital_view (entry_vec t)) = length (rr t)"
  "length (margin_trigger_view (entry_vec t)) = length (rr t)"
  "length (floor_view (entry_vec t)) = length (rf t)"
  by (simp_all add: entry_vec_def discount_array_def Let_def)

lemma loop_vec_length:
  "length (portfolio_view (loop_vec t m)) = length (rr t)
   \<and> length (ref_capital_view (loop_vec t m)) = length (rr t)
   \<and> length (margin_trigger_view (loop_vec t m)) = length (rr t)
   \<and> length (floor_view (loop_vec t m)) = length (rf t)"
proof (induction m)
  case 0
  show ?case by (simp add: entry_vec_length)
next
  case (Suc m)
  show ?case
  proof (cases "1 \<le> m")
    case True
    with Suc show ?thesis by (simp add: loop_vec_Suc body_vec_views iteration_length)
  next
    case False
    then have "m = 0" by simp
    then show ?thesis by (simp add: entry_vec_length)
  qed
qed

lemma loop_vec_untouched:
  assumes "1 \<le> m" "m \<le> j"
  shows "portfolio_view (loop_vec t m) ! j = portfolio_view (entry_vec t) ! j
   \<and> ref_capital_view (loop_vec t m) ! j = ref_capital_view (entry_vec t) ! j
   \<and> margin_trigger_view (loop_vec t m) ! j = margin_trigger_view (entry_vec t) ! j
   \<and> floor_view (loop_vec t m) ! j = floor_view (entry_vec t) ! j"
  using assms
proof (induction m)
  case 0
  then show ?case by simp
next
  case (Suc m)
  show ?case
  proof (cases "1 \<le> m")
    case True
    with Suc have "m \<le> j" "j \<noteq> m" "j \<noteq> m - 1" by simp_all
    with Suc True show ?thesis by (simp add: loop_vec_Suc body_vec_views iteration_frame)
  next
    case False
    then have "m = 0" by simp
    then show ?thesis by simp
  qed
qed

lemma loop_vec_final:
  assumes "Suc j \<le> m"
  shows "ref_capital_view (loop_vec t m) ! j = ref_capital_view (loop_vec t (Suc j)) ! j
   \<and> margin_trigger_view (loop_vec t m) ! j = margin_trigger_view (loop_vec t (Suc j)) ! j
   \<and> floor_view (loop_vec t m) ! j = floor_view (loop_vec t (Suc j)) ! j"
  using assms
proof (induction m)
  case 0
  then show ?case by simp
next
  case (Suc m)
  show ?case
  proof (cases "Suc j \<le> m")
    case True
    then have "1 \<le> m" "j \<noteq> m" by simp_all
    with Suc True show ?thesis by (simp add: loop_vec_Suc body_vec_views iteration_frame)
  next
    case False
    with Suc.prems have "m = j" by simp
    then show ?thesis by simp
  qed
qed

lemma loop_vec_final_portfolio:
  assumes "Suc (Suc j) \<le> m"
  shows "portfolio_view (loop_vec t m) ! j = portfolio_view (loop_vec t (Suc (Suc j))) ! j"
  using assms
proof (induction m)
  case 0
  then show ?case by simp
next
  case (Suc m)
  show ?case
  proof (cases "Suc (Suc j) \<le> m")
    case True
    then have "1 \<le> m" "j \<noteq> m" "j \<noteq> m - 1" by simp_all
    with Suc True show ?thesis by (simp add: loop_vec_Suc body_vec_views iteration_frame)
  next
    case False
    with Suc.prems have "m = Suc j" by simp
    then show ?thesis by simp
  qed
qed

text \<open>When \<^verbatim>\<open>run\<close> of \<^verbatim>\<open>tipp_.pyx\<close> returns, the object holds the arrays of the loop.\<close>

lemma run_vec_outputs:
  assumes "run_vec t = Inr t'"
  shows "portfolio t' = Some (portfolio_view (loop_vec t (length (rr t))))"
    "ref_capital t' = Some (ref_capital_view (loop_vec t (length (rr t))))"
    "margin_trigger t' = Some (margin_trigger_view (loop_vec t (length (rr t))))"
    "floor_arr t' = Some (floor_view (loop_vec t (length (rr t))))"
    "compounded_period t' = compounded_period_a (loop_vec t (length (rr t)))"
    "discount t' = Some (discount_array t)"
  using assms by (auto simp add: run_vec_def Let_def split: if_splits)

text \<open>It returns for every object whose series have one length and whose \<open>freq\<close> is not 0.\<close>

lemma run_vec_returns:
  assumes "length (rf t) = length (rr t)" "freq t \<noteq> 0"
  shows "\<exists>t'. run_vec t = Inr t'"
  using assms by (simp add: run_vec_def Let_def)

lemma init_vec_fields:
  assumes "init_vec c m r f b l mr mc fr = Inr t"
  shows "capital t = c" "multiplier t = m" "rr t = r" "rf t = f" "br t = b" "lock_in t = l"
    "min_risk_req t = mr" "min_capital_req t = mc" "freq t = fr" "fr \<noteq> 0"
    "compounded_period t = real (length r) / fr"
  using assms by (auto simp add: init_vec_def split: if_splits)

lemma init_fields:
  assumes "init c m r f b l mr mc fr = Inr t"
  shows "capital t = c" "multiplier t = m" "rr t = r" "rf t = f" "br t = b" "lock_in t = l"
    "min_risk_req t = mr" "min_capital_req t = mc" "freq t = fr"
    "length f = length r" "length b = length r"
    "compounded_period t = real (length r) / fr"
  using assms by (auto simp add: init_def Let_def split: if_splits)

section \<open>The example objects are constructed objects\<close>

lemma zero_volatility_init:
  "init 100 1 [0, 0, 0, 0, 0] [0, 0, 0, 0, 0] [0, 0, 0, 0, 0] (1 / 10) (1 / 5) (4 / 5) 252
     = Inr zero_volatility"
  by (simp add: init_def zero_volatility_def)

lemma yearly_vec_init:
  "init_vec 100 1 [0, 0, 0] [252 / 100, 252 / 100, 0] [0, 0, 0] (1 / 10) (1 / 5) (4 / 5) 1
     = Inr yearly_vec"
  by (simp add: init_vec_def yearly_vec_def)

section \<open>The floor at index 0\<close>

lemma run_floor_0:
  assumes "1 \<le> length (rr t)"
  shows "the (floor_arr (run t)) ! 0 = capital t * min_capital_req t"
proof -
  from assms have pos: "0 < length (rr t)" and "Suc 0 \<le> length (rr t)"
    by (simp_all add: Suc_le_eq)
  then have "floor_view (loop t (length (rr t))) ! 0 = floor_view (loop t (Suc 0)) ! 0"
    using loop_final [of 0 "length (rr t)" t] by simp
  also have "\<dots> = capital t * min_capital_req t"
    using pos by (simp add: entry_def Let_def)
  finally show ?thesis by (simp add: run_outputs)
qed

lemma run_vec_floor_0:
  assumes "1 \<le> length (rr t)" "length (rf t) = length (rr t)" "run_vec t = Inr t'"
  shows "the (floor_arr t') ! 0 =
    capital t * min_capital_req t / pow (1 + rf t ! 0 * freq t / 252) (compounded_period t)"
proof -
  from assms have pos: "0 < length (rf t)" and "Suc 0 \<le> length (rr t)"
    by (simp_all add: Suc_le_eq)
  then have "floor_view (loop_vec t (length (rr t))) ! 0 = floor_view (loop_vec t (Suc 0)) ! 0"
    using loop_vec_final [of 0 "length (rr t)" t] by simp
  also have "\<dots> = capital t * min_capital_req t
      / pow (1 + rf t ! 0 * freq t / 252) (compounded_period t)"
    using pos by (simp add: entry_vec_def discount_array_def Let_def)
  finally show ?thesis using assms by (simp add: run_vec_outputs)
qed

lemma yearly_vec_run: "run_vec yearly_vec = Inr (projr (run_vec yearly_vec))"
proof -
  have "\<exists>t'. run_vec yearly_vec = Inr t'"
    by (rule run_vec_returns) (simp_all add: yearly_vec_def)
  then show ?thesis by auto
qed

text \<open>
  C1, as stated, fails for \<^verbatim>\<open>tipp_.pyx\<close>: with a base of 1.01 and three years to
  compound, slot 0 of the floor is \<open>80 / 1.01 ^ 3\<close> and not
  \<open>capital * min_capital_req = 80\<close>.
\<close>

theorem floor_0_vec_counterexample:
  "init_vec 100 1 [0, 0, 0] [252 / 100, 252 / 100, 0] [0, 0, 0] (1 / 10) (1 / 5) (4 / 5) 1
     = Inr yearly_vec
   \<and> run_vec yearly_vec = Inr (projr (run_vec yearly_vec))
   \<and> the (floor_arr (projr (run_vec yearly_vec))) ! 0
       \<noteq> capital yearly_vec * min_capital_req yearly_vec"
proof -
  have "the (floor_arr (projr (run_vec yearly_vec))) ! 0
      \<noteq> capital yearly_vec * min_capital_req yearly_vec"
    using run_vec_floor_0 [OF _ _ yearly_vec_run]
    by (simp add: yearly_vec_def pow_def power3_eq_cube)
  with yearly_vec_init yearly_vec_run show ?thesis by simp
qed

text \<open>
  C1 (amended): after \<^verbatim>\<open>run\<close> on series of length at least 1, slot 0 of the floor holds
  the value the code stored before the loop. In \<^verbatim>\<open>part_000\<close> that value is
  \<open>capital * min_capital_req\<close>; in \<^verbatim>\<open>tipp_.pyx\<close> it is \<open>capital * min_capital_req\<close>
  divided by the discount of slot 0, \<open>(1 + rf[0] * freq / 252)\<close> to the power of
  the compounded period with which \<^verbatim>\<open>run\<close> starts.
\<close>

theorem floor_0:
  "(1 \<le> length (rr t) \<longrightarrow> the (floor_arr (run t)) ! 0 = capital t * min_capital_req t)
   \<and> (1 \<le> length (rr u) \<longrightarrow> length (rf u) = length (rr u) \<longrightarrow> run_vec u = Inr u' \<longrightarrow>
        the (floor_arr u') ! 0 =
          capital u * min_capital_req u
            / pow (1 + rf u ! 0 * freq u / 252) (compounded_period u))"
  using run_floor_0 run_vec_floor_0 by blast

theorem floor_0_witness:
  "1 \<le> length (rr zero_volatility)
   \<and> the (floor_arr (run zero_volatility)) ! 0 = 80
   \<and> 1 \<le> length (rr yearly_vec) \<and> length (rf yearly_vec) = length (rr yearly_vec)
   \<and> run_vec yearly_vec = Inr (projr (run_vec yearly_vec))
   \<and> the (floor_arr (projr (run_vec yearly_vec))) ! 0 = 80000000 / 1030301"
  using floor_0 [of zero_volatility yearly_vec "projr (run_vec yearly_vec)"] yearly_vec_run
  by (simp add: zero_volatility_def yearly_vec_def pow_def power3_eq_cube)

section \<open>Construction\<close>

text \<open>
  The constructor of \<^verbatim>\<open>part_000\<close> raises \<^verbatim>\<open>ValueError\<close> exactly when the three lengths
  are not all equal, and returns an object otherwise.
\<close>

lemma init_raises_iff:
  "(init c m r f b l mr mc fr = Inl ValueError)
     = (length r \<noteq> length f \<or> length r \<noteq> length b)"
  by (simp add: init_def Let_def)

lemma init_returns_iff:
  "(\<exists>t. init c m r f b l mr mc fr = Inr t) = (length r = length f \<and> length r = length b)"
  by (simp add: init_def Let_def)

lemma init_error: "init c m r f b l mr mc fr = Inl e \<Longrightarrow> e = ValueError"
  by (simp add: init_def Let_def split: if_splits)

text \<open>
  C2: the constructor of \<^verbatim>\<open>tipp_.pyx\<close>, whose length check is commented out, accepts
  \<^verbatim>\<open>rr\<close> of length 5 with \<^verbatim>\<open>rf\<close> of length 4 and returns an object; \<^verbatim>\<open>run\<close> on that
  object then raises \<^verbatim>\<open>IndexError\<close>.
\<close>

theorem init_vec_accepts_unequal_lengths:
  "init_vec 100 1 [0, 0, 0, 0, 0] [0, 0, 0, 0] [0, 0, 0, 0, 0] (1 / 10) (1 / 5) (4 / 5) 252
     = Inr unequal_vec
   \<and> run_vec unequal_vec = Inl IndexError"
  by (simp add: init_vec_def unequal_vec_def run_vec_def)

section \<open>What the loop depends on\<close>

text \<open>
  An iteration reads the configuration and the two return series, and nothing else of the
  object.
\<close>

lemma iteration_cong:
  assumes "lock_in t' = lock_in t" "min_capital_req t' = min_capital_req t"
    "multiplier t' = multiplier t" "min_risk_req t' = min_risk_req t"
    "rr t' = rr t" "rf t' = rf t"
  shows "iteration t' d i v = iteration t d i v"
proof -
  have a: "update_ref_capital t' i v = update_ref_capital t i v" for v :: "'c views_scheme"
    by (simp add: update_ref_capital_def should_update_lock_in_def assms)
  have b: "inject_liquidity t' i v = inject_liquidity t i v" for v :: "'c views_scheme"
    by (simp add: inject_liquidity_def should_inject_liquidity_def capital_to_inject_def assms)
  have c: "update_portfolio t' i v = update_portfolio t i v" for v :: "'c views_scheme"
    by (simp add: update_portfolio_def risk_allocation_def get_risk_allocation_mix_def
        update_portfolio_mix_def assms)
  show ?thesis
    by (simp add: iteration_def before_allocation_def a b c)
qed

lemma loop_cong:
  assumes "lock_in t' = lock_in t" "min_capital_req t' = min_capital_req t"
    "multiplier t' = multiplier t" "min_risk_req t' = min_risk_req t"
    "rr t' = rr t" "rf t' = rf t" "capital t' = capital t" "freq t' = freq t"
  shows "loop t' m = loop t m"
proof -
  have "body t' = body t"
    by (intro ext) (simp add: body_def assms iteration_cong [of t' t])
  moreover have "entry t' = entry t"
    by (simp add: entry_def assms)
  ultimately show ?thesis by (simp add: loop_def)
qed

lemma loop_vec_cong:
  assumes "lock_in t' = lock_in t" "min_capital_req t' = min_capital_req t"
    "multiplier t' = multiplier t" "min_risk_req t' = min_risk_req t"
    "rr t' = rr t" "rf t' = rf t" "capital t' = capital t" "freq t' = freq t"
    "compounded_period t' = compounded_period t"
  shows "loop_vec t' m = loop_vec t m"
proof -
  have d: "discount_array t' = discount_array t"
    by (simp add: discount_array_def assms)
  have "body_vec t' = body_vec t"
    by (intro ext) (simp add: body_vec_def assms d iteration_cong [of t' t])
  moreover have "entry_vec t' = entry_vec t"
    by (simp add: entry_vec_def assms d)
  ultimately show ?thesis by (simp add: loop_vec_def)
qed

lemma run_config:
  "capital (run t) = capital t" "multiplier (run t) = multiplier t" "rr (run t) = rr t"
  "rf (run t) = rf t" "br (run t) = br t" "lock_in (run t) = lock_in t"
  "min_risk_req (run t) = min_risk_req t" "min_capital_req (run t) = min_capital_req t"
  "freq (run t) = freq t"
  by (simp_all add: run_def Let_def)

lemma run_vec_config:
  assumes "run_vec t = Inr t'"
  shows "capital t' = capital t" "multiplier t' = multiplier t" "rr t' = rr t"
    "rf t' = rf t" "br t' = br t" "lock_in t' = lock_in t"
    "min_risk_req t' = min_risk_req t" "min_capital_req t' = min_capital_req t"
    "freq t' = freq t"
  using assms by (auto simp add: run_vec_def Let_def split: if_splits)

section \<open>The compounded period and the discount\<close>

lemma loop_compounded_period:
  "compounded_period_l (loop t m) = real (length (rr t)) / freq t - real (m - 1) / freq t"
proof (induction m)
  case 0
  show ?case by (simp add: entry_def Let_def)
next
  case (Suc m)
  show ?case
  proof (cases m)
    case 0
    then show ?thesis by (simp add: entry_def Let_def)
  next
    case (Suc k)
    then have "compounded_period_l (loop t (Suc m)) = compounded_period_l (loop t m) - 1 / freq t"
      by (simp add: loop_Suc body_locals)
    with Suc.IH Suc show ?thesis
      by (simp add: add_divide_distrib)
  qed
qed

lemma loop_discount_factor:
  assumes "1 \<le> m"
  shows "discount_factor (loop t m)
    = pow (1 + rf t ! (m - 1) * freq t / 252) (compounded_period_l (loop t m))"
proof (cases "m = 1")
  case True
  then show ?thesis by (simp add: entry_def Let_def)
next
  case False
  with assms obtain k where k: "m = Suc k" "1 \<le> k"
    by (cases m) auto
  then show ?thesis by (simp add: loop_Suc body_locals)
qed

lemma loop_vec_compounded_period:
  "compounded_period_a (loop_vec t m) = compounded_period t - real (m - 1) / freq t"
proof (induction m)
  case 0
  show ?case by (simp add: entry_vec_def Let_def)
next
  case (Suc m)
  show ?case
  proof (cases m)
    case 0
    then show ?thesis by (simp add: entry_vec_def Let_def)
  next
    case (Suc k)
    then have "compounded_period_a (loop_vec t (Suc m)) = compounded_period_a (loop_vec t m) - 1 / freq t"
      by (simp add: loop_vec_Suc body_vec_attrs)
    with Suc.IH Suc show ?thesis
      by (simp add: add_divide_distrib)
  qed
qed

lemma discount_array_nth:
  assumes "j < length (rf t)"
  shows "discount_array t ! j = pow (1 + rf t ! j * freq t / 252) (compounded_period t)"
  using assms by (simp add: discount_array_def)

section \<open>A second call of run\<close>

lemma run_run: "run (run t) = run t"
proof -
  have "loop (run t) m = loop t m" for m
    by (rule loop_cong) (simp_all add: run_config)
  then show ?thesis
    by (simp add: run_def Let_def)
qed

text \<open>
  C3, as stated, fails for \<^verbatim>\<open>part_000\<close>: no object gives other outputs at a second call
  of \<^verbatim>\<open>run\<close>, which allocates its arrays and sets its local compounded period anew.
\<close>

theorem run_twice_counterexample:
  "\<not> (\<exists>t. portfolio (run (run t)) \<noteq> portfolio (run t)
         \<or> ref_capital (run (run t)) \<noteq> ref_capital (run t)
         \<or> floor_arr (run (run t)) \<noteq> floor_arr (run t)
         \<or> margin_trigger (run (run t)) \<noteq> margin_trigger (run t))"
  by (simp add: run_run)

lemma yearly_vec_run_again:
  "run_vec (projr (run_vec yearly_vec)) = Inr (projr (run_vec (projr (run_vec yearly_vec))))"
proof -
  have "\<exists>t'. run_vec (projr (run_vec yearly_vec)) = Inr t'"
    using run_vec_config [OF yearly_vec_run]
    by (intro run_vec_returns) (simp_all add: yearly_vec_def)
  then show ?thesis by auto
qed

lemma yearly_vec_floors:
  "the (floor_arr (projr (run_vec yearly_vec))) ! 0 = 80 / (101 / 100) ^ 3"
  "the (floor_arr (projr (run_vec (projr (run_vec yearly_vec))))) ! 0 = 80 / (101 / 100)"
proof -
  show "the (floor_arr (projr (run_vec yearly_vec))) ! 0 = 80 / (101 / 100) ^ 3"
    using run_vec_floor_0 [OF _ _ yearly_vec_run]
    by (simp add: yearly_vec_def pow_def)
  have cp: "compounded_period (projr (run_vec yearly_vec)) = 1"
    using run_vec_outputs(5) [OF yearly_vec_run]
    by (simp add: loop_vec_compounded_period yearly_vec_def)
  show "the (floor_arr (projr (run_vec (projr (run_vec yearly_vec))))) ! 0 = 80 / (101 / 100)"
    using run_vec_floor_0 [OF _ _ yearly_vec_run_again] run_vec_config [OF yearly_vec_run] cp
    by (simp add: yearly_vec_def pow_def)
qed

text \<open>
  C3 (amended): \<^verbatim>\<open>run\<close> of \<^verbatim>\<open>part_000\<close> is idempotent; \<^verbatim>\<open>run\<close> of \<^verbatim>\<open>tipp_.pyx\<close> is not:
  for the constructed object \<open>yearly_vec\<close> both calls return and the second call leaves
  another floor than the first, as it computes the discount from the compounded period the
  first call has left (the output arrays are allocated anew by each call).
\<close>

theorem run_twice:
  "run (run t) = run t
   \<and> init_vec 100 1 [0, 0, 0] [252 / 100, 252 / 100, 0] [0, 0, 0] (1 / 10) (1 / 5) (4 / 5) 1
       = Inr yearly_vec
   \<and> run_vec yearly_vec = Inr (projr (run_vec yearly_vec))
   \<and> run_vec (projr (run_vec yearly_vec))
       = Inr (projr (run_vec (projr (run_vec yearly_vec))))
   \<and> floor_arr (projr (run_vec (projr (run_vec yearly_vec))))
       \<noteq> floor_arr (projr (run_vec yearly_vec))"
proof -
  have "the (floor_arr (projr (run_vec (projr (run_vec yearly_vec))))) ! 0
      \<noteq> the (floor_arr (projr (run_vec yearly_vec))) ! 0"
    by (simp add: yearly_vec_floors power3_eq_cube)
  then have "floor_arr (projr (run_vec (projr (run_vec yearly_vec))))
      \<noteq> floor_arr (projr (run_vec yearly_vec))"
    by auto
  with run_run yearly_vec_init yearly_vec_run yearly_vec_run_again show ?thesis
    by simp
qed

section \<open>The compounded period after run\<close>

lemma run_vec_compounded_period:
  assumes "init_vec c m r f b l mr mc fr = Inr u" "1 \<le> length r" "run_vec u = Inr u'"
  shows "compounded_period u' = 1 / fr"
proof -
  from assms(2) obtain k where k: "length r = Suc k"
    by (cases "length r") auto
  have "compounded_period u' = real (length r) / fr - real (length r - 1) / fr"
    using run_vec_outputs(5) [OF assms(3)] init_vec_fields [OF assms(1)]
    by (simp add: loop_vec_compounded_period)
  also have "\<dots> = 1 / fr"
    by (simp add: k add_divide_distrib)
  finally show ?thesis .
qed

text \<open>
  C4, as stated, fails for \<^verbatim>\<open>part_000\<close>: after \<^verbatim>\<open>run\<close> on the zero-volatility object
  (five periods) the compounded period is still \<open>5 / 252\<close> and not \<open>1 / 252\<close>.
\<close>

theorem compounded_period_counterexample:
  "init 100 1 [0, 0, 0, 0, 0] [0, 0, 0, 0, 0] [0, 0, 0, 0, 0] (1 / 10) (1 / 5) (4 / 5) 252
     = Inr zero_volatility
   \<and> compounded_period (run zero_volatility) = 5 / 252
   \<and> compounded_period (run zero_volatility) \<noteq> 1 / freq zero_volatility"
proof -
  have "compounded_period (run zero_volatility) = 5 / 252"
    "compounded_period (run zero_volatility) \<noteq> 1 / freq zero_volatility"
    by (simp_all add: run_outputs zero_volatility_def)
  with zero_volatility_init show ?thesis by simp
qed

text \<open>
  C4 (amended): \<^verbatim>\<open>run\<close> of \<^verbatim>\<open>tipp_.pyx\<close> decrements the attribute by \<open>1 / freq\<close> in every
  iteration (before iteration \<open>i\<close> it is \<open>n / freq - (i - 1) / freq\<close>), and after \<^verbatim>\<open>run\<close>
  on a constructed object with \<open>n \<ge> 1\<close> the attribute is \<open>1 / freq\<close>. \<^verbatim>\<open>run\<close> of
  \<^verbatim>\<open>part_000\<close> decrements a local variable and leaves the attribute at \<open>n / freq\<close>.
\<close>

theorem compounded_period_after_run:
  "(init_vec c m r f b l mr mc fr = Inr u \<longrightarrow> 1 \<le> length r \<longrightarrow>
      (\<forall>i. compounded_period_a (loop_vec u i) = real (length r) / fr - real (i - 1) / fr)
      \<and> (\<forall>u'. run_vec u = Inr u' \<longrightarrow> compounded_period u' = 1 / fr))
   \<and> (init c m r f b l mr mc fr = Inr t \<longrightarrow> fr \<noteq> 0 \<longrightarrow>
        compounded_period (run t) = real (length r) / fr)"
  using run_vec_compounded_period [of c m r f b l mr mc fr u]
    init_vec_fields [of c m r f b l mr mc fr u] init_fields [of c m r f b l mr mc fr t]
  by (simp add: loop_vec_compounded_period run_outputs)

theorem compounded_period_after_run_witness:
  "init_vec 100 1 [0, 0, 0] [252 / 100, 252 / 100, 0] [0, 0, 0] (1 / 10) (1 / 5) (4 / 5) 1
     = Inr yearly_vec
   \<and> 1 \<le> length [0::real, 0, 0]
   \<and> compounded_period_a (loop_vec yearly_vec 2) = 2
   \<and> run_vec yearly_vec = Inr (projr (run_vec yearly_vec))
   \<and> compounded_period (projr (run_vec yearly_vec)) = 1
   \<and> init 100 1 [0, 0, 0, 0, 0] [0, 0, 0, 0, 0] [0, 0, 0, 0, 0] (1 / 10) (1 / 5) (4 / 5) 252
     = Inr zero_volatility
   \<and> (252::real) \<noteq> 0
   \<and> compounded_period (run zero_volatility) = 5 / 252"
  using compounded_period_after_run [of 100 1 "[0, 0, 0]" "[252 / 100, 252 / 100, 0]"
      "[0, 0, 0]" "1 / 10" "1 / 5" "4 / 5" 1 yearly_vec]
    compounded_period_after_run [of 100 1 "[0, 0, 0, 0, 0]" "[0, 0, 0, 0, 0]"
      "[0, 0, 0, 0, 0]" "1 / 10" "1 / 5" "4 / 5" 252 _ zero_volatility]
    yearly_vec_init zero_volatility_init yearly_vec_run
  by simp

section \<open>The discount of an iteration\<close>

lemma loop_floor_step:
  assumes "1 \<le> i" "i < length (rr t)"
  shows "floor_view (loop t (Suc i)) ! i =
    (if floor_view (loop t i) ! (i - 1) < floor_cap (discount_factor (loop t i)) i (loop t i)
     then floor_cap (discount_factor (loop t i)) i (loop t i)
     else floor_view (loop t i) ! (i - 1))"
  using assms loop_length [of t i]
  by (simp add: loop_Suc body_views iteration_floor floor_cap_def)

lemma run_vec_lengths:
  assumes "run_vec t = Inr t'" "2 \<le> length (rr t)"
  shows "length (rr t) \<le> length (rf t)" "freq t \<noteq> 0"
  using assms by (auto simp add: run_vec_def Let_def split: if_splits)

lemma loop_vec_floor_step:
  assumes "1 \<le> i" "i < length (rf t)"
  shows "floor_view (loop_vec t (Suc i)) ! i =
    (if floor_view (loop_vec t i) ! (i - 1)
        < floor_cap (discount_array t ! (i - 1)) i (loop_vec t i)
     then floor_cap (discount_array t ! (i - 1)) i (loop_vec t i)
     else floor_view (loop_vec t i) ! (i - 1))"
  using assms loop_vec_length [of t i]
  by (simp add: loop_vec_Suc body_vec_views iteration_floor floor_cap_def)

text \<open>
  C5, as stated, fails for \<^verbatim>\<open>tipp_.pyx\<close>: in iteration 2 of the run on \<open>yearly_vec\<close> the
  compounded period is 2, while the discount the iteration reads, \<^verbatim>\<open>_discount[1]\<close>, is
  \<open>1.01 ^ 3\<close>: its exponent is the compounded period from before the loop.
\<close>

theorem discount_vec_counterexample:
  "init_vec 100 1 [0, 0, 0] [252 / 100, 252 / 100, 0] [0, 0, 0] (1 / 10) (1 / 5) (4 / 5) 1
     = Inr yearly_vec
   \<and> compounded_period_a (loop_vec yearly_vec 2) = 2
   \<and> discount_array yearly_vec ! (2 - 1) = (101 / 100) ^ 3
   \<and> discount_array yearly_vec ! (2 - 1)
       \<noteq> pow (1 + rf yearly_vec ! (2 - 1) * freq yearly_vec / 252)
             (compounded_period_a (loop_vec yearly_vec 2))"
proof -
  have "compounded_period_a (loop_vec yearly_vec 2) = 2"
    by (simp add: loop_vec_compounded_period yearly_vec_def)
  moreover have "discount_array yearly_vec ! (2 - 1) = (101 / 100) ^ 3"
    by (simp add: discount_array_def yearly_vec_def pow_def)
  moreover have "discount_array yearly_vec ! (2 - 1)
       \<noteq> pow (1 + rf yearly_vec ! (2 - 1) * freq yearly_vec / 252)
             (compounded_period_a (loop_vec yearly_vec 2))"
    by (simp add: loop_vec_compounded_period discount_array_def yearly_vec_def pow_def
        power3_eq_cube power2_eq_square)
  ultimately show ?thesis using yearly_vec_init by simp
qed

text \<open>
  C5 (amended): in \<^verbatim>\<open>part_000\<close> the discount by which iteration \<open>i\<close> multiplies
  \<^verbatim>\<open>portfolio[i - 1]\<close> is \<open>(1 + rf[i - 1] * freq / 252)\<close> to the power of the compounded
  period of that step, \<open>n / freq - (i - 1) / freq\<close>. In \<^verbatim>\<open>tipp_.pyx\<close> the iteration
  multiplies by \<^verbatim>\<open>_discount[i - 1]\<close>, which is \<open>(1 + rf[i - 1] * freq / 252)\<close> to the
  power of the compounded period with which \<^verbatim>\<open>run\<close> started, the same exponent for every
  slot, although the attribute decreases by \<open>1 / freq\<close> in each iteration.
\<close>

theorem discount_of_iteration:
  "(1 \<le> i \<longrightarrow> i < length (rr t) \<longrightarrow> freq t \<noteq> 0 \<longrightarrow>
      discount_factor (loop t i)
        = pow (1 + rf t ! (i - 1) * freq t / 252) (compounded_period_l (loop t i))
      \<and> compounded_period_l (loop t i) = real (length (rr t)) / freq t - real (i - 1) / freq t
      \<and> floor_view (loop t (Suc i)) ! i =
          (if floor_view (loop t i) ! (i - 1) < floor_cap (discount_factor (loop t i)) i (loop t i)
           then floor_cap (discount_factor (loop t i)) i (loop t i)
           else floor_view (loop t i) ! (i - 1)))
   \<and> (1 \<le> i \<longrightarrow> i < length (rr u) \<longrightarrow> length (rf u) = length (rr u) \<longrightarrow>
      freq u \<noteq> 0 \<longrightarrow>
      discount_array u ! (i - 1)
        = pow (1 + rf u ! (i - 1) * freq u / 252) (compounded_period u)
      \<and> compounded_period_a (loop_vec u i) = compounded_period u - real (i - 1) / freq u
      \<and> floor_view (loop_vec u (Suc i)) ! i =
          (if floor_view (loop_vec u i) ! (i - 1)
              < floor_cap (discount_array u ! (i - 1)) i (loop_vec u i)
           then floor_cap (discount_array u ! (i - 1)) i (loop_vec u i)
           else floor_view (loop_vec u i) ! (i - 1)))"
proof -
  have "discount_array u ! (i - 1)
      = pow (1 + rf u ! (i - 1) * freq u / 252) (compounded_period u)"
    if "i < length (rr u)" "length (rf u) = length (rr u)"
    using that by (intro discount_array_nth) simp
  then show ?thesis
    using loop_discount_factor [of i t] loop_compounded_period [of t i]
      loop_floor_step [of i t] loop_vec_compounded_period [of u i]
      loop_vec_floor_step [of i u]
    by simp
qed

theorem discount_of_iteration_witness:
  "1 \<le> (2::nat) \<and> 2 < length (rr zero_volatility) \<and> freq zero_volatility \<noteq> 0
   \<and> discount_factor (loop zero_volatility 2) = 1
   \<and> compounded_period_l (loop zero_volatility 2) = 4 / 252
   \<and> 2 < length (rr yearly_vec) \<and> length (rf yearly_vec) = length (rr yearly_vec)
   \<and> freq yearly_vec \<noteq> 0
   \<and> discount_array yearly_vec ! (2 - 1) = (101 / 100) ^ 3
   \<and> compounded_period_a (loop_vec yearly_vec 2) = 2"
  using discount_of_iteration [of 2 zero_volatility yearly_vec]
  by (simp add: zero_volatility_def yearly_vec_def pow_def)

section \<open>The runs of the example objects\<close>

lemma forced_injection_init:
  "init 100 3 [0, - 9 / 10, 0, 0] [0, 0, 0, 0] [0, 0, 0, 0] (1 / 10) (1 / 5) (4 / 5) 252
     = Inr forced_injection"
  by (simp add: init_def forced_injection_def)

lemma forced_injection_vec_init:
  "init_vec 100 3 [0, - 9 / 10, 0, 0] [0, 0, 0, 0] [0, 0, 0, 0] (1 / 10) (1 / 5) (4 / 5) 252
     = Inr forced_injection_vec"
  by (simp add: init_vec_def forced_injection_vec_def)

lemma crash_init:
  "init 100 1 [0, - 10, - 10, 0] [0, 0, 0, 0] [0, 0, 0, 0] (1 / 10) (1 / 5) (4 / 5) 252
     = Inr crash"
  by (simp add: init_def crash_def)

lemma forced_injection_loop:
  "loop forced_injection 2 =
     \<lparr>portfolio_view = [100, 46, 100, 100], ref_capital_view = [100, 100, 100, 100],
      margin_trigger_view = [0, 0, 0, 0], floor_view = [80, 100, 80, 80],
      compounded_period_l = 3 / 252, discount_factor = 1\<rparr>"
  "loop forced_injection 4 =
     \<lparr>portfolio_view = [100, 80, 80, 80], ref_capital_view = [100, 100, 66, 80],
      margin_trigger_view = [0, 0, 34, 0], floor_view = [80, 100, 100, 100],
      compounded_period_l = 1 / 252, discount_factor = 1\<rparr>"
  by (simp_all add: loop_def entry_def body_def step_defs forced_injection_def pow_def upt_rec)

lemma forced_injection_vec_loop:
  "loop_vec forced_injection_vec 2 =
     \<lparr>portfolio_view = [100, 46, 100, 100], ref_capital_view = [100, 100, 100, 100],
      margin_trigger_view = [0, 0, 0, 0], floor_view = [80, 100, 80, 80],
      compounded_period_a = 3 / 252\<rparr>"
  "loop_vec forced_injection_vec 4 =
     \<lparr>portfolio_view = [100, 80, 80, 80], ref_capital_view = [100, 100, 66, 80],
      margin_trigger_view = [0, 0, 34, 0], floor_view = [80, 100, 100, 100],
      compounded_period_a = 1 / 252\<rparr>"
  by (simp_all add: loop_vec_def entry_vec_def body_vec_def discount_array_def step_defs
      forced_injection_vec_def pow_def upt_rec)

lemma forced_injection_vec_run:
  "run_vec forced_injection_vec = Inr (projr (run_vec forced_injection_vec))"
proof -
  have "\<exists>t'. run_vec forced_injection_vec = Inr t'"
    by (rule run_vec_returns) (simp_all add: forced_injection_vec_def)
  then show ?thesis by auto
qed



section \<open>The \<^verbatim>\<open>float64\<close> loop of \<^verbatim>\<open>tipp_.pyx\<close>\<close>

lemma scale_numeral:
  "scale (numeral k) x =
     (if 2 \<le> \<bar>x\<bar> then scale (pred_numeral k) (x / 2) + 1
      else if \<bar>x\<bar> < 1 then scale (pred_numeral k) (2 * x) - 1
      else 0)"
  by (simp add: numeral_eq_Suc)

lemmas eval64 =
  round64_def round_even_def pow2_def scale_numeral fsub_def signed_inf_def
  should_update_lock_in64_def should_update_floor64_def should_inject_liquidity64_def
  get_risk_allocation_mix64_def update_portfolio_mix64_def discount_array64_def
  update_ref_capital64_def floor_cap64_def update_floor64_def capital_to_inject64_def
  inject_liquidity64_def update_portfolio64_def body64_def loop64_def entry64_def Let_def
  upt_rec

lemma flt_fge: "flt a b \<Longrightarrow> fge b a"
  by (cases a; cases b) simp_all

lemma fge_refl: "a \<noteq> NaN \<Longrightarrow> fge a a"
  by (cases a) simp_all

lemma flt_not_NaN: "flt a b \<Longrightarrow> b \<noteq> NaN"
  by (cases a; cases b) simp_all

lemma body64_floor:
  "floor_s (body64 t i s) = (floor_s s)
     [i := (if flt (floor_s s ! (i - 1)) (floor_cap64 t i s) then floor_cap64 t i s
            else floor_s s ! (i - 1))]"
proof -
  have a: "floor_s (update_ref_capital64 t i s) = floor_s s"
    "floor_cap64 t i (update_ref_capital64 t i s) = floor_cap64 t i s"
    by (simp_all add: update_ref_capital64_def floor_cap64_def)
  have b: "floor_s (update_floor64 t i v) = (floor_s v)
     [i := (if flt (floor_s v ! (i - 1)) (floor_cap64 t i v) then floor_cap64 t i v
            else floor_s v ! (i - 1))]" for v
    by (simp add: update_floor64_def should_update_floor64_def)
  have c: "floor_s (inject_liquidity64 t i v) = floor_s v" for v
    by (simp add: inject_liquidity64_def)
  have d: "floor_s (update_portfolio64 t i v) = floor_s v" for v
    by (simp add: update_portfolio64_def Let_def)
  show ?thesis
    by (simp add: body64_def Let_def a b c d)
qed

lemma loop64_0 [simp]: "loop64 t 0 = entry64 t"
  by (simp add: loop64_def)

lemma loop64_1 [simp]: "loop64 t (Suc 0) = entry64 t"
  by (simp add: loop64_def)

lemma loop64_Suc: "1 \<le> m \<Longrightarrow> loop64 t (Suc m) = body64 t m (loop64 t m)"
  by (simp add: loop64_def)

lemma loop64_floor_length: "length (floor_s (loop64 t m)) = length (rf64 t)"
proof (induction m)
  case 0
  show ?case by (simp add: entry64_def discount_array64_def Let_def)
next
  case (Suc m)
  show ?case
  proof (cases m)
    case 0
    then show ?thesis by (simp add: entry64_def discount_array64_def Let_def)
  next
    case (Suc k)
    with Suc.IH show ?thesis by (simp add: loop64_Suc body64_floor)
  qed
qed

lemma loop64_floor_final:
  assumes "Suc j \<le> m"
  shows "floor_s (loop64 t m) ! j = floor_s (loop64 t (Suc j)) ! j"
  using assms
proof (induction m)
  case 0
  then show ?case by simp
next
  case (Suc m)
  show ?case
  proof (cases "Suc j \<le> m")
    case True
    then have "1 \<le> m" "m \<noteq> j" by simp_all
    with Suc True show ?thesis by (simp add: loop64_Suc body64_floor)
  next
    case False
    with Suc.prems have "m = j" by simp
    then show ?thesis by simp
  qed
qed

text \<open>What iteration \<open>i\<close> leaves in slot \<open>i\<close> of the floor, and that it keeps slot \<open>i - 1\<close>.\<close>

lemma loop64_floor_step:
  assumes "1 \<le> i" "i < length (rf64 t)"
  shows "floor_s (loop64 t (Suc i)) ! i =
      (if flt (floor_s (loop64 t i) ! (i - 1)) (floor_cap64 t i (loop64 t i))
       then floor_cap64 t i (loop64 t i) else floor_s (loop64 t i) ! (i - 1))"
    and "floor_s (loop64 t (Suc i)) ! (i - 1) = floor_s (loop64 t i) ! (i - 1)"
proof -
  from assms(1) have "i - 1 \<noteq> i" by simp
  then show "floor_s (loop64 t (Suc i)) ! (i - 1) = floor_s (loop64 t i) ! (i - 1)"
    using assms(1) by (simp add: loop64_Suc body64_floor)
  show "floor_s (loop64 t (Suc i)) ! i =
      (if flt (floor_s (loop64 t i) ! (i - 1)) (floor_cap64 t i (loop64 t i))
       then floor_cap64 t i (loop64 t i) else floor_s (loop64 t i) ! (i - 1))"
    using assms loop64_floor_length [of t i] by (simp add: loop64_Suc body64_floor)
qed

lemma loop64_floor_not_NaN:
  assumes "floor_s (entry64 t) ! 0 \<noteq> NaN" "i < length (rf64 t)"
  shows "floor_s (loop64 t (Suc i)) ! i \<noteq> NaN"
  using assms(2)
proof (induction i)
  case 0
  show ?case using assms(1) by simp
next
  case (Suc i)
  then have prev: "floor_s (loop64 t (Suc i)) ! i \<noteq> NaN" by simp
  have step: "floor_s (loop64 t (Suc (Suc i))) ! Suc i =
      (if flt (floor_s (loop64 t (Suc i)) ! i) (floor_cap64 t (Suc i) (loop64 t (Suc i)))
       then floor_cap64 t (Suc i) (loop64 t (Suc i)) else floor_s (loop64 t (Suc i)) ! i)"
    using loop64_floor_step(1) [of "Suc i" t] Suc.prems by simp
  show ?case
  proof (cases "flt (floor_s (loop64 t (Suc i)) ! i) (floor_cap64 t (Suc i) (loop64 t (Suc i)))")
    case True
    then show ?thesis using step flt_not_NaN by simp
  next
    case False
    then show ?thesis using step prev by simp
  qed
qed

lemma loop64_floor_mono:
  assumes "floor_s (entry64 t) ! 0 \<noteq> NaN" "1 \<le> i" "i < length (rf64 t)" "Suc i \<le> m"
  shows "fge (floor_s (loop64 t m) ! i) (floor_s (loop64 t m) ! (i - 1))"
proof -
  from assms(2) have i: "Suc (i - 1) = i" by simp
  let ?f = "floor_s (loop64 t i) ! (i - 1)"
  let ?c = "floor_cap64 t i (loop64 t i)"
  have "i - 1 < length (rf64 t)" using assms(3) by simp
  then have f: "?f \<noteq> NaN"
    using loop64_floor_not_NaN [OF assms(1), of "i - 1"] i by simp
  have prev: "floor_s (loop64 t m) ! (i - 1) = ?f"
    using loop64_floor_final [of "i - 1" m t] assms(4) i by simp
  have cur: "floor_s (loop64 t m) ! i = (if flt ?f ?c then ?c else ?f)"
    using loop64_floor_final [of i m t] assms(4) loop64_floor_step(1) [OF assms(2,3)]
    by simp
  show ?thesis
  proof (cases "flt ?f ?c")
    case True
    then show ?thesis using cur prev flt_fge by simp
  next
    case False
    then show ?thesis using cur prev f fge_refl by simp
  qed
qed

lemma run64_outputs:
  assumes "run64 t = Inr t'"
  shows "portfolio64 t' = Some (portfolio_s (loop64 t (length (rr64 t))))"
    "ref_capital64 t' = Some (ref_capital_s (loop64 t (length (rr64 t))))"
    "margin_trigger64 t' = Some (margin_trigger_s (loop64 t (length (rr64 t))))"
    "floor64 t' = Some (floor_s (loop64 t (length (rr64 t))))"
  using assms by (auto simp add: run64_def Let_def split: if_splits)

lemma run64_lengths:
  assumes "run64 t = Inr t'" "2 \<le> length (rr64 t)"
  shows "length (rr64 t) \<le> length (rf64 t)"
  using assms by (auto simp add: run64_def Let_def split: if_splits)

lemma run64_floor_mono:
  assumes "run64 t = Inr t'" "the (floor64 t') ! 0 \<noteq> NaN" "1 \<le> i" "i < length (rr64 t)"
  shows "fge (the (floor64 t') ! i) (the (floor64 t') ! (i - 1))"
proof -
  from assms(3,4) have n: "2 \<le> length (rr64 t)" "Suc 0 \<le> length (rr64 t)" by simp_all
  then have len: "i < length (rf64 t)"
    using run64_lengths [OF assms(1)] assms(4) by simp
  have "floor_s (loop64 t (length (rr64 t))) ! 0 = floor_s (entry64 t) ! 0"
    using loop64_floor_final [of 0 "length (rr64 t)" t] n(2) by simp
  then have "floor_s (entry64 t) ! 0 \<noteq> NaN"
    using assms(2) by (simp add: run64_outputs [OF assms(1)])
  then show ?thesis
    using loop64_floor_mono [of t i "length (rr64 t)"] assms(3,4) len
    by (simp add: run64_outputs [OF assms(1)])
qed

text \<open>The runs on the two example objects.\<close>

lemma rounded64_init:
  "init64 (Num 100) (Num 5)
     [Num 0, Num (3332663724254167 / 9007199254740992),
      Num (- (7656119366529843 / 9007199254740992)),
      Num (- (7385903388887613 / 9007199254740992))]
     [Num 0, Num 0, Num 0, Num 0] [Num 0, Num 0, Num 0, Num 0]
     (Num (3602879701896397 / 36028797018963968))
     (Num (3602879701896397 / 18014398509481984))
     (Num (3602879701896397 / 4503599627370496)) (Num 252)
   = Inr rounded64"
  by (simp add: init64_def rounded64_def round64_def round_even_def pow2_def scale_numeral)

lemma negative_base64_init:
  "init64 (Num 100) (Num 1) [Num 0, Num 0, Num 0] [Num (- 2), Num (- 2), Num (- 2)]
     [Num 0, Num 0, Num 0]
     (Num (3602879701896397 / 36028797018963968))
     (Num (3602879701896397 / 18014398509481984))
     (Num (3602879701896397 / 4503599627370496)) (Num 252)
   = Inr negative_base64"
  by (simp add: init64_def negative_base64_def round64_def round_even_def pow2_def
      scale_numeral)

lemma rounded64_loop:
  "loop64 rounded64 4 =
     \<lparr>portfolio_s = [Num 100, Num 137, Num (964051795233997 / 8796093022208),
                     Num (1611894601631243 / 17592186044416)],
      ref_capital_s = [Num 100, Num 100, Num 137, Num (843545320829747 / 17592186044416)],
      margin_trigger_s = [Num 0, Num 0, Num 0, Num (1566584167255245 / 17592186044416)],
      floor_s = [Num 80, Num 100, Num 137, Num 137],
      compounded_period_s = Num (285942833483841 / 72057594037927936)\<rparr>"
  by (simp add: rounded64_def eval64)

lemma negative_base64_loop:
  "loop64 negative_base64 3 =
     \<lparr>portfolio_s = [Num 100, Num 100, Num 100],
      ref_capital_s = [Num 100, Num 100, Num 100],
      margin_trigger_s = [Num 0, Num 0, Num 0],
      floor_s = [NaN, NaN, NaN],
      compounded_period_s = Num (285942833483841 / 72057594037927936)\<rparr>"
  by (simp add: negative_base64_def eval64)

lemma rounded64_run: "run64 rounded64 = Inr (projr (run64 rounded64))"
  by (simp add: run64_def rounded64_def Let_def)

lemma negative_base64_run: "run64 negative_base64 = Inr (projr (run64 negative_base64))"
  by (simp add: run64_def negative_base64_def Let_def)

section \<open>Liquidity injection\<close>

lemma loop_injection:
  assumes "1 \<le> i" "i < length (rr t)" "Suc i \<le> m"
  shows "(0 < margin_trigger_view (loop t m) ! i)
      = (portfolio_view (loop t i) ! (i - 1)
          < ref_capital_view (loop t i) ! (i - 1) * min_capital_req t)"
    and "0 < margin_trigger_view (loop t m) ! i \<Longrightarrow>
      portfolio_view (loop t m) ! (i - 1)
        = ref_capital_view (loop t m) ! (i - 1) * min_capital_req t"
    and "0 < margin_trigger_view (loop t m) ! i \<Longrightarrow>
      ref_capital_view (loop t m) ! i
        = ref_capital_view (loop t m) ! (i - 1) - margin_trigger_view (loop t m) ! i"
    and "portfolio_view (loop t m) ! (i - 1)
        = portfolio_view (loop t i) ! (i - 1) + margin_trigger_view (loop t m) ! i"
proof -
  let ?s = "loop t i"
  let ?inj = "portfolio_view ?s ! (i - 1) < ref_capital_view ?s ! (i - 1) * min_capital_req t"
  from assms(1) have i: "Suc (i - 1) = i" by simp
  have len: "i < length (margin_trigger_view ?s)" "i < length (ref_capital_view ?s)"
    "i - 1 < length (portfolio_view ?s)"
    using assms(2) loop_length [of t i] by simp_all
  have zero: "margin_trigger_view ?s ! i = 0"
    using loop_untouched [of i i t] assms(1,2) by (simp add: entry_def Let_def)
  have mt: "margin_trigger_view (loop t m) ! i =
      (if ?inj then ref_capital_view ?s ! (i - 1) * min_capital_req t - portfolio_view ?s ! (i - 1)
       else 0)"
    using loop_final [of i m t] assms(1,3) len zero
    by (simp add: loop_Suc body_views iteration_margin_trigger)
  have rc_prev: "ref_capital_view (loop t m) ! (i - 1) = ref_capital_view ?s ! (i - 1)"
    using loop_final [of "i - 1" m t] assms(3) i by simp
  have pv_prev: "portfolio_view (loop t m) ! (i - 1) =
      (if ?inj then ref_capital_view ?s ! (i - 1) * min_capital_req t
       else portfolio_view ?s ! (i - 1))"
    using loop_final_portfolio [of "i - 1" m t] assms(1,3) i
      iteration_portfolio_prev [OF assms(1) len(3), of t "discount_factor ?s"]
    by (simp add: loop_Suc body_views)
  have rc: "ref_capital_view (loop t m) ! i =
      (if ?inj then ref_capital_view ?s ! (i - 1)
          - (ref_capital_view ?s ! (i - 1) * min_capital_req t - portfolio_view ?s ! (i - 1))
       else if (1 + lock_in t) * ref_capital_view ?s ! (i - 1) \<le> portfolio_view ?s ! (i - 1)
       then portfolio_view ?s ! (i - 1) else ref_capital_view ?s ! (i - 1))"
    using loop_final [of i m t] assms(1,3) len
    by (simp add: loop_Suc body_views iteration_ref_capital)
  show iff: "(0 < margin_trigger_view (loop t m) ! i) = ?inj"
    by (simp add: mt)
  show "portfolio_view (loop t m) ! (i - 1)
      = ref_capital_view (loop t m) ! (i - 1) * min_capital_req t"
    if "0 < margin_trigger_view (loop t m) ! i"
    using that iff pv_prev rc_prev by simp
  show "ref_capital_view (loop t m) ! i
      = ref_capital_view (loop t m) ! (i - 1) - margin_trigger_view (loop t m) ! i"
    if "0 < margin_trigger_view (loop t m) ! i"
    using that iff rc rc_prev mt by simp
  show "portfolio_view (loop t m) ! (i - 1)
      = portfolio_view (loop t i) ! (i - 1) + margin_trigger_view (loop t m) ! i"
    using pv_prev mt by simp
qed

lemma loop_vec_injection:
  assumes "1 \<le> i" "i < length (rr t)" "Suc i \<le> m"
  shows "(0 < margin_trigger_view (loop_vec t m) ! i)
      = (portfolio_view (loop_vec t i) ! (i - 1)
          < ref_capital_view (loop_vec t i) ! (i - 1) * min_capital_req t)"
    and "0 < margin_trigger_view (loop_vec t m) ! i \<Longrightarrow>
      portfolio_view (loop_vec t m) ! (i - 1)
        = ref_capital_view (loop_vec t m) ! (i - 1) * min_capital_req t"
    and "0 < margin_trigger_view (loop_vec t m) ! i \<Longrightarrow>
      ref_capital_view (loop_vec t m) ! i
        = ref_capital_view (loop_vec t m) ! (i - 1) - margin_trigger_view (loop_vec t m) ! i"
    and "portfolio_view (loop_vec t m) ! (i - 1)
        = portfolio_view (loop_vec t i) ! (i - 1) + margin_trigger_view (loop_vec t m) ! i"
proof -
  let ?s = "loop_vec t i"
  let ?inj = "portfolio_view ?s ! (i - 1) < ref_capital_view ?s ! (i - 1) * min_capital_req t"
  from assms(1) have i: "Suc (i - 1) = i" by simp
  have len: "i < length (margin_trigger_view ?s)" "i < length (ref_capital_view ?s)"
    "i - 1 < length (portfolio_view ?s)"
    using assms(2) loop_vec_length [of t i] by simp_all
  have zero: "margin_trigger_view ?s ! i = 0"
    using loop_vec_untouched [of i i t] assms(1,2) by (simp add: entry_vec_def Let_def)
  have mt: "margin_trigger_view (loop_vec t m) ! i =
      (if ?inj then ref_capital_view ?s ! (i - 1) * min_capital_req t - portfolio_view ?s ! (i - 1)
       else 0)"
    using loop_vec_final [of i m t] assms(1,3) len zero
    by (simp add: loop_vec_Suc body_vec_views iteration_margin_trigger)
  have rc_prev: "ref_capital_view (loop_vec t m) ! (i - 1) = ref_capital_view ?s ! (i - 1)"
    using loop_vec_final [of "i - 1" m t] assms(3) i by simp
  have pv_prev: "portfolio_view (loop_vec t m) ! (i - 1) =
      (if ?inj then ref_capital_view ?s ! (i - 1) * min_capital_req t
       else portfolio_view ?s ! (i - 1))"
    using loop_vec_final_portfolio [of "i - 1" m t] assms(1,3) i
      iteration_portfolio_prev [OF assms(1) len(3), of t "discount_array t ! (i - 1)"]
    by (simp add: loop_vec_Suc body_vec_views)
  have rc: "ref_capital_view (loop_vec t m) ! i =
      (if ?inj then ref_capital_view ?s ! (i - 1)
          - (ref_capital_view ?s ! (i - 1) * min_capital_req t - portfolio_view ?s ! (i - 1))
       else if (1 + lock_in t) * ref_capital_view ?s ! (i - 1) \<le> portfolio_view ?s ! (i - 1)
       then portfolio_view ?s ! (i - 1) else ref_capital_view ?s ! (i - 1))"
    using loop_vec_final [of i m t] assms(1,3) len
    by (simp add: loop_vec_Suc body_vec_views iteration_ref_capital)
  show iff: "(0 < margin_trigger_view (loop_vec t m) ! i) = ?inj"
    by (simp add: mt)
  show "portfolio_view (loop_vec t m) ! (i - 1)
      = ref_capital_view (loop_vec t m) ! (i - 1) * min_capital_req t"
    if "0 < margin_trigger_view (loop_vec t m) ! i"
    using that iff pv_prev rc_prev by simp
  show "ref_capital_view (loop_vec t m) ! i
      = ref_capital_view (loop_vec t m) ! (i - 1) - margin_trigger_view (loop_vec t m) ! i"
    if "0 < margin_trigger_view (loop_vec t m) ! i"
    using that iff rc rc_prev mt by simp
  show "portfolio_view (loop_vec t m) ! (i - 1)
      = portfolio_view (loop_vec t i) ! (i - 1) + margin_trigger_view (loop_vec t m) ! i"
    using pv_prev mt by simp
qed

text \<open>
  C6, as stated, fails in \<^verbatim>\<open>float64\<close>: in the run of \<^verbatim>\<open>tipp_.pyx\<close> on \<open>rounded64\<close>
  the margin trigger of iteration 3 is positive, and \<^verbatim>\<open>portfolio[2]\<close>, the rounded sum of
  the old value and the injection, is 109.60000000000002, one unit in the last place
  above \<^verbatim>\<open>ref_capital[2] * min_capital_req\<close>, which is 109.60000000000001.
\<close>

theorem liquidity_injection_counterexample:
  "init64 (Num 100) (Num 5)
     [Num 0, Num (3332663724254167 / 9007199254740992),
      Num (- (7656119366529843 / 9007199254740992)),
      Num (- (7385903388887613 / 9007199254740992))]
     [Num 0, Num 0, Num 0, Num 0] [Num 0, Num 0, Num 0, Num 0]
     (Num (3602879701896397 / 36028797018963968))
     (Num (3602879701896397 / 18014398509481984))
     (Num (3602879701896397 / 4503599627370496)) (Num 252)
   = Inr rounded64
   \<and> run64 rounded64 = Inr (projr (run64 rounded64))
   \<and> flt (Num 0) (the (margin_trigger64 (projr (run64 rounded64))) ! 3)
   \<and> the (portfolio64 (projr (run64 rounded64))) ! (3 - 1)
       = Num (964051795233997 / 8796093022208)
   \<and> fmul (the (ref_capital64 (projr (run64 rounded64))) ! (3 - 1))
            (min_capital_req64 rounded64)
       = Num (7712414361871975 / 70368744177664)
   \<and> the (portfolio64 (projr (run64 rounded64))) ! (3 - 1)
       \<noteq> fmul (the (ref_capital64 (projr (run64 rounded64))) ! (3 - 1))
              (min_capital_req64 rounded64)"
proof -
  have len: "length (rr64 rounded64) = 4"
    by (simp add: rounded64_def)
  have mcr: "min_capital_req64 rounded64 = Num (3602879701896397 / 4503599627370496)"
    by (simp add: rounded64_def)
  have "flt (Num 0) (the (margin_trigger64 (projr (run64 rounded64))) ! 3)"
    "the (portfolio64 (projr (run64 rounded64))) ! (3 - 1)
       = Num (964051795233997 / 8796093022208)"
    "fmul (the (ref_capital64 (projr (run64 rounded64))) ! (3 - 1))
          (min_capital_req64 rounded64)
       = Num (7712414361871975 / 70368744177664)"
    by (simp_all add: run64_outputs [OF rounded64_run] len rounded64_loop mcr
        round64_def round_even_def pow2_def scale_numeral)
  then show ?thesis
    using rounded64_init rounded64_run by simp
qed

text \<open>
  C6 (amended): for \<open>1 \<le> i < n\<close>, \<^verbatim>\<open>margin_trigger[i]\<close> is positive after \<^verbatim>\<open>run\<close> exactly
  when \<^verbatim>\<open>portfolio[i - 1]\<close> was below \<^verbatim>\<open>ref_capital[i - 1] * min_capital_req\<close> when
  iteration \<open>i\<close> started; the final \<^verbatim>\<open>portfolio[i - 1]\<close> is the value from the start of
  iteration \<open>i\<close> plus \<^verbatim>\<open>margin_trigger[i]\<close> (the sum that line 132 stores, rounded in
  \<^verbatim>\<open>float64\<close>); and when the margin trigger is positive, the
  final \<^verbatim>\<open>ref_capital[i]\<close> is \<^verbatim>\<open>ref_capital[i - 1] - margin_trigger[i]\<close> and, in exact
  arithmetic, the final \<^verbatim>\<open>portfolio[i - 1]\<close> is \<^verbatim>\<open>ref_capital[i - 1] * min_capital_req\<close>
  (in \<^verbatim>\<open>float64\<close> up to the rounding of the subtraction and the addition). For both
  variants, over the reals.
\<close>

theorem liquidity_injection:
  "(1 \<le> i \<longrightarrow> i < length (rr t) \<longrightarrow>
      (0 < the (margin_trigger (run t)) ! i)
        = (portfolio_view (loop t i) ! (i - 1)
            < ref_capital_view (loop t i) ! (i - 1) * min_capital_req t)
      \<and> the (portfolio (run t)) ! (i - 1)
          = portfolio_view (loop t i) ! (i - 1) + the (margin_trigger (run t)) ! i
      \<and> (0 < the (margin_trigger (run t)) ! i \<longrightarrow>
          the (portfolio (run t)) ! (i - 1)
            = the (ref_capital (run t)) ! (i - 1) * min_capital_req t
          \<and> the (ref_capital (run t)) ! i
            = the (ref_capital (run t)) ! (i - 1) - the (margin_trigger (run t)) ! i))
   \<and> (1 \<le> i \<longrightarrow> i < length (rr u) \<longrightarrow> run_vec u = Inr u' \<longrightarrow>
      (0 < the (margin_trigger u') ! i)
        = (portfolio_view (loop_vec u i) ! (i - 1)
            < ref_capital_view (loop_vec u i) ! (i - 1) * min_capital_req u)
      \<and> the (portfolio u') ! (i - 1)
          = portfolio_view (loop_vec u i) ! (i - 1) + the (margin_trigger u') ! i
      \<and> (0 < the (margin_trigger u') ! i \<longrightarrow>
          the (portfolio u') ! (i - 1) = the (ref_capital u') ! (i - 1) * min_capital_req u
          \<and> the (ref_capital u') ! i
            = the (ref_capital u') ! (i - 1) - the (margin_trigger u') ! i))"
proof (intro conjI impI)
  assume i: "1 \<le> i" "i < length (rr t)"
  then have m: "Suc i \<le> length (rr t)" by simp
  show "(0 < the (margin_trigger (run t)) ! i)
      = (portfolio_view (loop t i) ! (i - 1)
          < ref_capital_view (loop t i) ! (i - 1) * min_capital_req t)"
    using loop_injection(1) [OF i m] by (simp add: run_outputs)
  show "the (portfolio (run t)) ! (i - 1)
      = portfolio_view (loop t i) ! (i - 1) + the (margin_trigger (run t)) ! i"
    using loop_injection(4) [OF i m] by (simp add: run_outputs)
  assume "0 < the (margin_trigger (run t)) ! i"
  then have pos: "0 < margin_trigger_view (loop t (length (rr t))) ! i"
    by (simp add: run_outputs)
  show "the (portfolio (run t)) ! (i - 1)
      = the (ref_capital (run t)) ! (i - 1) * min_capital_req t"
    using loop_injection(2) [OF i m pos] by (simp add: run_outputs)
  show "the (ref_capital (run t)) ! i
      = the (ref_capital (run t)) ! (i - 1) - the (margin_trigger (run t)) ! i"
    using loop_injection(3) [OF i m pos] by (simp add: run_outputs)
next
  assume i: "1 \<le> i" "i < length (rr u)" and r: "run_vec u = Inr u'"
  from i have m: "Suc i \<le> length (rr u)" by simp
  show "(0 < the (margin_trigger u') ! i)
      = (portfolio_view (loop_vec u i) ! (i - 1)
          < ref_capital_view (loop_vec u i) ! (i - 1) * min_capital_req u)"
    using loop_vec_injection(1) [OF i m] by (simp add: run_vec_outputs [OF r])
  show "the (portfolio u') ! (i - 1)
      = portfolio_view (loop_vec u i) ! (i - 1) + the (margin_trigger u') ! i"
    using loop_vec_injection(4) [OF i m] by (simp add: run_vec_outputs [OF r])
  assume "0 < the (margin_trigger u') ! i"
  then have pos: "0 < margin_trigger_view (loop_vec u (length (rr u))) ! i"
    by (simp add: run_vec_outputs [OF r])
  show "the (portfolio u') ! (i - 1) = the (ref_capital u') ! (i - 1) * min_capital_req u"
    using loop_vec_injection(2) [OF i m pos] by (simp add: run_vec_outputs [OF r])
  show "the (ref_capital u') ! i
      = the (ref_capital u') ! (i - 1) - the (margin_trigger u') ! i"
    using loop_vec_injection(3) [OF i m pos] by (simp add: run_vec_outputs [OF r])
qed

theorem liquidity_injection_witness:
  "1 \<le> (2::nat) \<and> 2 < length (rr forced_injection)
   \<and> 0 < the (margin_trigger (run forced_injection)) ! 2
   \<and> portfolio_view (loop forced_injection 2) ! (2 - 1) = 46
   \<and> the (portfolio (run forced_injection)) ! (2 - 1) = 80
   \<and> the (ref_capital (run forced_injection)) ! (2 - 1) = 100
   \<and> the (ref_capital (run forced_injection)) ! 2 = 66
   \<and> 2 < length (rr forced_injection_vec)
   \<and> run_vec forced_injection_vec = Inr (projr (run_vec forced_injection_vec))
   \<and> 0 < the (margin_trigger (projr (run_vec forced_injection_vec))) ! 2
   \<and> the (portfolio (projr (run_vec forced_injection_vec))) ! (2 - 1)
       = the (ref_capital (projr (run_vec forced_injection_vec))) ! (2 - 1)
           * min_capital_req forced_injection_vec
   \<and> the (ref_capital (projr (run_vec forced_injection_vec))) ! 2
       = the (ref_capital (projr (run_vec forced_injection_vec))) ! (2 - 1)
           - the (margin_trigger (projr (run_vec forced_injection_vec))) ! 2"
proof -
  have len: "length (rr forced_injection) = 4" "length (rr forced_injection_vec) = 4"
    by (simp_all add: forced_injection_def forced_injection_vec_def)
  have pos: "0 < the (margin_trigger (run forced_injection)) ! 2"
    "0 < the (margin_trigger (projr (run_vec forced_injection_vec))) ! 2"
    by (simp_all add: run_outputs run_vec_outputs [OF forced_injection_vec_run] len
        forced_injection_loop forced_injection_vec_loop)
  have vals: "portfolio_view (loop forced_injection 2) ! (2 - 1) = 46"
    "the (portfolio (run forced_injection)) ! (2 - 1) = 80"
    "the (ref_capital (run forced_injection)) ! (2 - 1) = 100"
    "the (ref_capital (run forced_injection)) ! 2 = 66"
    by (simp_all add: run_outputs len forced_injection_loop)
  show ?thesis
    using liquidity_injection [of 2 forced_injection forced_injection_vec
        "projr (run_vec forced_injection_vec)"]
      forced_injection_vec_run pos vals len
    by simp
qed

section \<open>The risky allocation\<close>











section \<open>The floor never decreases\<close>

lemma loop_floor_mono:
  assumes "1 \<le> i" "i < length (rr t)" "Suc i \<le> m"
  shows "floor_view (loop t m) ! (i - 1) \<le> floor_view (loop t m) ! i"
proof -
  from assms(1) have i: "Suc (i - 1) = i" by simp
  have "floor_view (loop t m) ! (i - 1) = floor_view (loop t i) ! (i - 1)"
    using loop_final [of "i - 1" m t] assms(3) i by simp
  moreover have "floor_view (loop t m) ! i = floor_view (loop t (Suc i)) ! i"
    using loop_final [of i m t] assms(3) by simp
  moreover have "floor_view (loop t i) ! (i - 1) \<le> floor_view (loop t (Suc i)) ! i"
    using loop_floor_step [OF assms(1,2)] by (simp add: floor_cap_def)
  ultimately show ?thesis by simp
qed

lemma loop_vec_floor_mono:
  assumes "1 \<le> i" "i < length (rf t)" "Suc i \<le> m"
  shows "floor_view (loop_vec t m) ! (i - 1) \<le> floor_view (loop_vec t m) ! i"
proof -
  from assms(1) have i: "Suc (i - 1) = i" by simp
  have "floor_view (loop_vec t m) ! (i - 1) = floor_view (loop_vec t i) ! (i - 1)"
    using loop_vec_final [of "i - 1" m t] assms(3) i by simp
  moreover have "floor_view (loop_vec t m) ! i = floor_view (loop_vec t (Suc i)) ! i"
    using loop_vec_final [of i m t] assms(3) by simp
  moreover have "floor_view (loop_vec t i) ! (i - 1) \<le> floor_view (loop_vec t (Suc i)) ! i"
    using loop_vec_floor_step [OF assms(1,2)] by (simp add: floor_cap_def)
  ultimately show ?thesis by simp
qed

text \<open>
  C8, as stated, fails in \<^verbatim>\<open>float64\<close> for \<^verbatim>\<open>tipp_.pyx\<close>: on \<open>negative_base64\<close> the base of
  the discount is \<open>- 1\<close> and the compounded period \<open>3 / 252\<close> is not an integer, so
  \<^verbatim>\<open>_discount\<close> and the initial floor are NaN; every slot of the floor stays NaN, and
  \<^verbatim>\<open>floor[1] >= floor[0]\<close> is false.
\<close>

theorem floor_monotone_counterexample:
  "init64 (Num 100) (Num 1) [Num 0, Num 0, Num 0] [Num (- 2), Num (- 2), Num (- 2)]
     [Num 0, Num 0, Num 0]
     (Num (3602879701896397 / 36028797018963968))
     (Num (3602879701896397 / 18014398509481984))
     (Num (3602879701896397 / 4503599627370496)) (Num 252)
   = Inr negative_base64
   \<and> run64 negative_base64 = Inr (projr (run64 negative_base64))
   \<and> floor64 (projr (run64 negative_base64)) = Some [NaN, NaN, NaN]
   \<and> \<not> fge (the (floor64 (projr (run64 negative_base64))) ! 1)
            (the (floor64 (projr (run64 negative_base64))) ! (1 - 1))"
proof -
  have len: "length (rr64 negative_base64) = 3"
    by (simp add: negative_base64_def)
  have "floor64 (projr (run64 negative_base64)) = Some [NaN, NaN, NaN]"
    by (simp add: run64_outputs [OF negative_base64_run] len negative_base64_loop)
  then show ?thesis
    using negative_base64_init negative_base64_run by simp
qed

text \<open>
  C8 (amended): after \<^verbatim>\<open>run\<close> of \<^verbatim>\<open>part_000\<close>, \<^verbatim>\<open>floor[i - 1] \<le> floor[i]\<close> for every \<open>i\<close>
  with \<open>1 \<le> i \<le> n - 1\<close>. After \<^verbatim>\<open>run\<close> of \<^verbatim>\<open>tipp_.pyx\<close>, in \<^verbatim>\<open>float64\<close>,
  \<^verbatim>\<open>floor[i] >= floor[i - 1]\<close> for every such \<open>i\<close> whenever \<^verbatim>\<open>floor[0]\<close> is not NaN.
\<close>

theorem floor_monotone:
  "(1 \<le> i \<longrightarrow> i < length (rr t) \<longrightarrow>
      the (floor_arr (run t)) ! (i - 1) \<le> the (floor_arr (run t)) ! i)
   \<and> (1 \<le> i \<longrightarrow> i < length (rr64 u) \<longrightarrow> run64 u = Inr u' \<longrightarrow>
      the (floor64 u') ! 0 \<noteq> NaN \<longrightarrow>
      fge (the (floor64 u') ! i) (the (floor64 u') ! (i - 1)))"
proof (intro conjI impI)
  assume "1 \<le> i" "i < length (rr t)"
  then show "the (floor_arr (run t)) ! (i - 1) \<le> the (floor_arr (run t)) ! i"
    using loop_floor_mono [of i t "length (rr t)"] by (simp add: run_outputs)
next
  assume "1 \<le> i" "i < length (rr64 u)" "run64 u = Inr u'" "the (floor64 u') ! 0 \<noteq> NaN"
  then show "fge (the (floor64 u') ! i) (the (floor64 u') ! (i - 1))"
    by (intro run64_floor_mono)
qed

theorem floor_monotone_witness:
  "1 \<le> (2::nat) \<and> 2 < length (rr forced_injection)
   \<and> the (floor_arr (run forced_injection)) ! (2 - 1)
       \<le> the (floor_arr (run forced_injection)) ! 2
   \<and> 2 < length (rr64 rounded64)
   \<and> run64 rounded64 = Inr (projr (run64 rounded64))
   \<and> the (floor64 (projr (run64 rounded64))) ! 0 = Num 80
   \<and> the (floor64 (projr (run64 rounded64))) ! 0 \<noteq> NaN
   \<and> the (floor64 (projr (run64 rounded64))) ! 2 = Num 137
   \<and> the (floor64 (projr (run64 rounded64))) ! (2 - 1) = Num 100
   \<and> fge (the (floor64 (projr (run64 rounded64))) ! 2)
          (the (floor64 (projr (run64 rounded64))) ! (2 - 1))"
proof -
  have len: "length (rr forced_injection) = 4" "length (rr64 rounded64) = 4"
    by (simp_all add: forced_injection_def rounded64_def)
  have fl: "the (floor64 (projr (run64 rounded64))) ! 0 = Num 80"
    "the (floor64 (projr (run64 rounded64))) ! 2 = Num 137"
    "the (floor64 (projr (run64 rounded64))) ! (2 - 1) = Num 100"
    by (simp_all add: run64_outputs [OF rounded64_run] len rounded64_loop)
  then have "the (floor64 (projr (run64 rounded64))) ! 0 \<noteq> NaN"
    by simp
  then show ?thesis
    using floor_monotone [of 2 forced_injection rounded64 "projr (run64 rounded64)"]
      rounded64_run len fl
    by simp
qed

section \<open>The benchmark series\<close>

lemma init_br:
  assumes "init c m r f b1 l mr mc fr = Inr t1" "init c m r f b2 l mr mc fr = Inr t2"
  shows "t2 = t1\<lparr>br := b2\<rparr>"
  using assms by (auto simp add: init_def Let_def split: if_splits)

lemma init_vec_br:
  assumes "init_vec c m r f b1 l mr mc fr = Inr t1" "init_vec c m r f b2 l mr mc fr = Inr t2"
  shows "t2 = t1\<lparr>br := b2\<rparr>"
  using assms by (auto simp add: init_vec_def split: if_splits)

lemma loop_br: "loop (t\<lparr>br := b\<rparr>) m = loop t m"
  by (rule loop_cong) simp_all

lemma loop_vec_br: "loop_vec (t\<lparr>br := b\<rparr>) m = loop_vec t m"
  by (rule loop_vec_cong) simp_all

lemma run_br: "run (t\<lparr>br := b\<rparr>) = (run t)\<lparr>br := b\<rparr>"
  by (simp add: run_def Let_def loop_br)

lemma run_vec_br: "run_vec (t\<lparr>br := b\<rparr>) = map_sum id (\<lambda>t'. t'\<lparr>br := b\<rparr>) (run_vec t)"
  by (simp add: run_vec_def Let_def loop_vec_br discount_array_def)

text \<open>
  C9: two constructions that differ in \<^verbatim>\<open>br\<close> only give, after \<^verbatim>\<open>run\<close>, the same four
  series and the same compounded period, in both variants (in \<^verbatim>\<open>tipp_.pyx\<close>, if \<^verbatim>\<open>run\<close>
  returns for the one it returns for the other).
\<close>

theorem benchmark_unused:
  "(init c m r f b1 l mr mc fr = Inr t1 \<longrightarrow> init c m r f b2 l mr mc fr = Inr t2 \<longrightarrow>
      portfolio (run t2) = portfolio (run t1)
      \<and> ref_capital (run t2) = ref_capital (run t1)
      \<and> floor_arr (run t2) = floor_arr (run t1)
      \<and> margin_trigger (run t2) = margin_trigger (run t1)
      \<and> compounded_period (run t2) = compounded_period (run t1))
   \<and> (init_vec c m r f b1 l mr mc fr = Inr u1 \<longrightarrow> init_vec c m r f b2 l mr mc fr = Inr u2 \<longrightarrow>
      run_vec u1 = Inr u1' \<longrightarrow>
      (\<exists>u2'. run_vec u2 = Inr u2'
        \<and> portfolio u2' = portfolio u1'
        \<and> ref_capital u2' = ref_capital u1'
        \<and> floor_arr u2' = floor_arr u1'
        \<and> margin_trigger u2' = margin_trigger u1'
        \<and> compounded_period u2' = compounded_period u1'))"
proof (intro conjI impI)
  assume "init c m r f b1 l mr mc fr = Inr t1" "init c m r f b2 l mr mc fr = Inr t2"
  then have t2: "t2 = t1\<lparr>br := b2\<rparr>" by (rule init_br)
  show "portfolio (run t2) = portfolio (run t1)"
    "ref_capital (run t2) = ref_capital (run t1)"
    "floor_arr (run t2) = floor_arr (run t1)"
    "margin_trigger (run t2) = margin_trigger (run t1)"
    "compounded_period (run t2) = compounded_period (run t1)"
    by (simp_all add: t2 run_br)
next
  assume "init_vec c m r f b1 l mr mc fr = Inr u1" "init_vec c m r f b2 l mr mc fr = Inr u2"
  then have u2: "u2 = u1\<lparr>br := b2\<rparr>" by (rule init_vec_br)
  assume "run_vec u1 = Inr u1'"
  then have "run_vec u2 = Inr (u1'\<lparr>br := b2\<rparr>)"
    by (simp add: u2 run_vec_br)
  then show "\<exists>u2'. run_vec u2 = Inr u2'
        \<and> portfolio u2' = portfolio u1'
        \<and> ref_capital u2' = ref_capital u1'
        \<and> floor_arr u2' = floor_arr u1'
        \<and> margin_trigger u2' = margin_trigger u1'
        \<and> compounded_period u2' = compounded_period u1'"
    by simp
qed


theorem benchmark_unused_witness:
  "init 100 3 [0, - 9 / 10, 0, 0] [0, 0, 0, 0] [0, 0, 0, 0] (1 / 10) (1 / 5) (4 / 5) 252
     = Inr forced_injection
   \<and> init 100 3 [0, - 9 / 10, 0, 0] [0, 0, 0, 0] [1, 2, 3, 4] (1 / 10) (1 / 5) (4 / 5) 252
     = Inr (forced_injection\<lparr>br := [1, 2, 3, 4]\<rparr>)
   \<and> portfolio (run (forced_injection\<lparr>br := [1, 2, 3, 4]\<rparr>)) = portfolio (run forced_injection)
   \<and> floor_arr (run (forced_injection\<lparr>br := [1, 2, 3, 4]\<rparr>)) = floor_arr (run forced_injection)
   \<and> init_vec 100 3 [0, - 9 / 10, 0, 0] [0, 0, 0, 0] [0, 0, 0, 0] (1 / 10) (1 / 5) (4 / 5) 252
     = Inr forced_injection_vec
   \<and> init_vec 100 3 [0, - 9 / 10, 0, 0] [0, 0, 0, 0] [1, 2, 3, 4] (1 / 10) (1 / 5) (4 / 5) 252
     = Inr (forced_injection_vec\<lparr>br := [1, 2, 3, 4]\<rparr>)
   \<and> run_vec forced_injection_vec = Inr (projr (run_vec forced_injection_vec))
   \<and> (\<exists>u2'. run_vec (forced_injection_vec\<lparr>br := [1, 2, 3, 4]\<rparr>) = Inr u2'
        \<and> portfolio u2' = portfolio (projr (run_vec forced_injection_vec))
        \<and> floor_arr u2' = floor_arr (projr (run_vec forced_injection_vec)))"
proof -
  have a: "init 100 3 [0, - 9 / 10, 0, 0] [0, 0, 0, 0] [1, 2, 3, 4] (1 / 10) (1 / 5) (4 / 5) 252
     = Inr (forced_injection\<lparr>br := [1, 2, 3, 4]\<rparr>)"
    by (simp add: init_def forced_injection_def)
  have b: "init_vec 100 3 [0, - 9 / 10, 0, 0] [0, 0, 0, 0] [1, 2, 3, 4] (1 / 10) (1 / 5) (4 / 5) 252
     = Inr (forced_injection_vec\<lparr>br := [1, 2, 3, 4]\<rparr>)"
    by (simp add: init_vec_def forced_injection_vec_def)
  show ?thesis
    using benchmark_unused [of 100 3 "[0, - 9 / 10, 0, 0]" "[0, 0, 0, 0]" "[0, 0, 0, 0]"
        "1 / 10" "1 / 5" "4 / 5" 252 forced_injection "[1, 2, 3, 4]"
        "forced_injection\<lparr>br := [1, 2, 3, 4]\<rparr>" forced_injection_vec
        "forced_injection_vec\<lparr>br := [1, 2, 3, 4]\<rparr>" "projr (run_vec forced_injection_vec)"]
      a b forced_injection_init forced_injection_vec_init forced_injection_vec_run
    by auto
qed

section \<open>Index 0\<close>

lemma loop_index_0:
  "ref_capital_view (loop t m) ! 0 = ref_capital_view (entry t) ! 0"
  "margin_trigger_view (loop t m) ! 0 = margin_trigger_view (entry t) ! 0"
  "floor_view (loop t m) ! 0 = floor_view (entry t) ! 0"
proof -
  have "ref_capital_view (loop t m) ! 0 = ref_capital_view (entry t) ! 0
      \<and> margin_trigger_view (loop t m) ! 0 = margin_trigger_view (entry t) ! 0
      \<and> floor_view (loop t m) ! 0 = floor_view (entry t) ! 0"
  proof (cases m)
    case 0
    then show ?thesis by simp
  next
    case (Suc k)
    then show ?thesis using loop_final [of 0 m t] by simp
  qed
  then show "ref_capital_view (loop t m) ! 0 = ref_capital_view (entry t) ! 0"
    "margin_trigger_view (loop t m) ! 0 = margin_trigger_view (entry t) ! 0"
    "floor_view (loop t m) ! 0 = floor_view (entry t) ! 0"
    by simp_all
qed

lemma entry_index_0:
  assumes "1 \<le> length (rr t)"
  shows "portfolio_view (entry t) ! 0 = capital t" "ref_capital_view (entry t) ! 0 = capital t"
    "margin_trigger_view (entry t) ! 0 = 0"
proof -
  from assms have "0 < length (rr t)" by (simp add: Suc_le_eq)
  then show "portfolio_view (entry t) ! 0 = capital t"
    "ref_capital_view (entry t) ! 0 = capital t" "margin_trigger_view (entry t) ! 0 = 0"
    by (simp_all add: entry_def Let_def)
qed

lemma loop_portfolio_0:
  assumes "0 < capital t" "0 \<le> min_capital_req t" "min_capital_req t \<le> 1"
    "1 \<le> length (rr t)"
  shows "portfolio_view (loop t m) ! 0 = portfolio_view (entry t) ! 0"
proof (induction m)
  case 0
  show ?case by simp
next
  case (Suc m)
  show ?case
  proof (cases m)
    case 0
    then show ?thesis by simp
  next
    case m: (Suc k)
    show ?thesis
    proof (cases k)
      case 0
      have le: "capital t * min_capital_req t \<le> capital t"
        using assms(1,3) by (simp add: mult_left_le)
      have len: "1 - 1 < length (portfolio_view (entry t))"
        using assms(4) by (simp add: entry_length Suc_le_eq)
      have "portfolio_view (loop t (Suc (Suc 0))) ! 0 = portfolio_view (entry t) ! 0"
        using iteration_portfolio_prev [OF order_refl len, of t "discount_factor (entry t)"] le
          entry_index_0 [OF assms(4)]
        by (simp add: loop_Suc body_views)
      with m 0 show ?thesis by simp
    next
      case (Suc j)
      with m have "1 \<le> m" "0 \<noteq> m" "0 \<noteq> m - 1" by simp_all
      with Suc.IH show ?thesis
        by (simp add: loop_Suc body_views iteration_frame)
    qed
  qed
qed

lemma entry_no_injection:
  assumes "0 < capital t" "0 \<le> min_capital_req t" "min_capital_req t \<le> 1"
    "1 \<le> length (rr t)"
  shows "\<not> should_inject_liquidity t (update_floor d 1 (update_ref_capital t 1 (entry t))) (1 - 1)"
proof -
  have le: "capital t * min_capital_req t \<le> capital t"
    using assms(1,3) by (simp add: mult_left_le)
  then show ?thesis
    using entry_index_0 [OF assms(4)]
    by (simp add: should_inject_liquidity_def step_views)
qed

lemma loop_vec_index_0:
  "ref_capital_view (loop_vec t m) ! 0 = ref_capital_view (entry_vec t) ! 0"
  "margin_trigger_view (loop_vec t m) ! 0 = margin_trigger_view (entry_vec t) ! 0"
  "floor_view (loop_vec t m) ! 0 = floor_view (entry_vec t) ! 0"
proof -
  have "ref_capital_view (loop_vec t m) ! 0 = ref_capital_view (entry_vec t) ! 0
      \<and> margin_trigger_view (loop_vec t m) ! 0 = margin_trigger_view (entry_vec t) ! 0
      \<and> floor_view (loop_vec t m) ! 0 = floor_view (entry_vec t) ! 0"
  proof (cases m)
    case 0
    then show ?thesis by simp
  next
    case (Suc k)
    then show ?thesis using loop_vec_final [of 0 m t] by simp
  qed
  then show "ref_capital_view (loop_vec t m) ! 0 = ref_capital_view (entry_vec t) ! 0"
    "margin_trigger_view (loop_vec t m) ! 0 = margin_trigger_view (entry_vec t) ! 0"
    "floor_view (loop_vec t m) ! 0 = floor_view (entry_vec t) ! 0"
    by simp_all
qed

lemma entry_vec_index_0:
  assumes "1 \<le> length (rr t)"
  shows "portfolio_view (entry_vec t) ! 0 = capital t" "ref_capital_view (entry_vec t) ! 0 = capital t"
    "margin_trigger_view (entry_vec t) ! 0 = 0"
proof -
  from assms have "0 < length (rr t)" by (simp add: Suc_le_eq)
  then show "portfolio_view (entry_vec t) ! 0 = capital t"
    "ref_capital_view (entry_vec t) ! 0 = capital t" "margin_trigger_view (entry_vec t) ! 0 = 0"
    by (simp_all add: entry_vec_def Let_def)
qed

lemma loop_vec_portfolio_0:
  assumes "0 < capital t" "0 \<le> min_capital_req t" "min_capital_req t \<le> 1"
    "1 \<le> length (rr t)"
  shows "portfolio_view (loop_vec t m) ! 0 = portfolio_view (entry_vec t) ! 0"
proof (induction m)
  case 0
  show ?case by simp
next
  case (Suc m)
  show ?case
  proof (cases m)
    case 0
    then show ?thesis by simp
  next
    case m: (Suc k)
    show ?thesis
    proof (cases k)
      case 0
      have le: "capital t * min_capital_req t \<le> capital t"
        using assms(1,3) by (simp add: mult_left_le)
      have len: "1 - 1 < length (portfolio_view (entry_vec t))"
        using assms(4) by (simp add: entry_vec_length Suc_le_eq)
      have "portfolio_view (loop_vec t (Suc (Suc 0))) ! 0 = portfolio_view (entry_vec t) ! 0"
        using iteration_portfolio_prev [OF order_refl len, of t "discount_array t ! (1 - 1)"] le
          entry_vec_index_0 [OF assms(4)]
        by (simp add: loop_vec_Suc body_vec_views)
      with m 0 show ?thesis by simp
    next
      case (Suc j)
      with m have "1 \<le> m" "0 \<noteq> m" "0 \<noteq> m - 1" by simp_all
      with Suc.IH show ?thesis
        by (simp add: loop_vec_Suc body_vec_views iteration_frame)
    qed
  qed
qed

lemma entry_vec_no_injection:
  assumes "0 < capital t" "0 \<le> min_capital_req t" "min_capital_req t \<le> 1"
    "1 \<le> length (rr t)"
  shows "\<not> should_inject_liquidity t (update_floor d 1 (update_ref_capital t 1 (entry_vec t))) (1 - 1)"
proof -
  have le: "capital t * min_capital_req t \<le> capital t"
    using assms(1,3) by (simp add: mult_left_le)
  then show ?thesis
    using entry_vec_index_0 [OF assms(4)]
    by (simp add: should_inject_liquidity_def step_views)
qed

text \<open>
  C10: with \<open>capital > 0\<close> and \<open>min_capital_req\<close> in \<open>[0, 1]\<close>, no iteration writes slot 0:
  at every point of the loop, and so after \<^verbatim>\<open>run\<close>, slot 0 of the portfolio, of the
  reference capital and of the floor holds the value stored before the loop, and slot 0 of
  the margin trigger is 0; the injection test of iteration 1 is false. For both variants.
\<close>

theorem index_0_not_written:
  "(0 < capital t \<longrightarrow> 0 \<le> min_capital_req t \<longrightarrow> min_capital_req t \<le> 1 \<longrightarrow>
    1 \<le> length (rr t) \<longrightarrow>
      portfolio_view (loop t m) ! 0 = portfolio_view (entry t) ! 0
      \<and> ref_capital_view (loop t m) ! 0 = ref_capital_view (entry t) ! 0
      \<and> floor_view (loop t m) ! 0 = floor_view (entry t) ! 0
      \<and> margin_trigger_view (loop t m) ! 0 = 0
      \<and> the (portfolio (run t)) ! 0 = capital t
      \<and> the (ref_capital (run t)) ! 0 = capital t
      \<and> the (floor_arr (run t)) ! 0 = floor_view (entry t) ! 0
      \<and> the (margin_trigger (run t)) ! 0 = 0
      \<and> \<not> should_inject_liquidity t
            (update_floor (discount_factor (entry t)) 1 (update_ref_capital t 1 (entry t)))
            (1 - 1))
   \<and> (0 < capital u \<longrightarrow> 0 \<le> min_capital_req u \<longrightarrow> min_capital_req u \<le> 1 \<longrightarrow>
      1 \<le> length (rr u) \<longrightarrow> run_vec u = Inr u' \<longrightarrow>
      portfolio_view (loop_vec u m) ! 0 = portfolio_view (entry_vec u) ! 0
      \<and> ref_capital_view (loop_vec u m) ! 0 = ref_capital_view (entry_vec u) ! 0
      \<and> floor_view (loop_vec u m) ! 0 = floor_view (entry_vec u) ! 0
      \<and> margin_trigger_view (loop_vec u m) ! 0 = 0
      \<and> the (portfolio u') ! 0 = capital u
      \<and> the (ref_capital u') ! 0 = capital u
      \<and> the (floor_arr u') ! 0 = floor_view (entry_vec u) ! 0
      \<and> the (margin_trigger u') ! 0 = 0
      \<and> \<not> should_inject_liquidity u
            (update_floor (discount_array u ! (1 - 1)) 1 (update_ref_capital u 1 (entry_vec u)))
            (1 - 1))"
proof (intro conjI impI)
  assume a: "0 < capital t" "0 \<le> min_capital_req t" "min_capital_req t \<le> 1"
    "1 \<le> length (rr t)"
  note p = loop_portfolio_0 [OF a]
  note e = entry_index_0 [OF a(4)]
  show "portfolio_view (loop t m) ! 0 = portfolio_view (entry t) ! 0" by (rule p)
  show "ref_capital_view (loop t m) ! 0 = ref_capital_view (entry t) ! 0"
    "floor_view (loop t m) ! 0 = floor_view (entry t) ! 0"
    by (simp_all add: loop_index_0)
  show "margin_trigger_view (loop t m) ! 0 = 0" by (simp add: loop_index_0 e)
  show "the (portfolio (run t)) ! 0 = capital t" by (simp add: run_outputs p e)
  show "the (ref_capital (run t)) ! 0 = capital t" by (simp add: run_outputs loop_index_0 e)
  show "the (floor_arr (run t)) ! 0 = floor_view (entry t) ! 0"
    by (simp add: run_outputs loop_index_0)
  show "the (margin_trigger (run t)) ! 0 = 0" by (simp add: run_outputs loop_index_0 e)
  show "\<not> should_inject_liquidity t
      (update_floor (discount_factor (entry t)) 1 (update_ref_capital t 1 (entry t))) (1 - 1)"
    by (rule entry_no_injection [OF a])
next
  assume a: "0 < capital u" "0 \<le> min_capital_req u" "min_capital_req u \<le> 1"
    "1 \<le> length (rr u)" and r: "run_vec u = Inr u'"
  note p = loop_vec_portfolio_0 [OF a]
  note e = entry_vec_index_0 [OF a(4)]
  note o = run_vec_outputs [OF r]
  show "portfolio_view (loop_vec u m) ! 0 = portfolio_view (entry_vec u) ! 0" by (rule p)
  show "ref_capital_view (loop_vec u m) ! 0 = ref_capital_view (entry_vec u) ! 0"
    "floor_view (loop_vec u m) ! 0 = floor_view (entry_vec u) ! 0"
    by (simp_all add: loop_vec_index_0)
  show "margin_trigger_view (loop_vec u m) ! 0 = 0" by (simp add: loop_vec_index_0 e)
  show "the (portfolio u') ! 0 = capital u" by (simp add: o p e)
  show "the (ref_capital u') ! 0 = capital u" by (simp add: o loop_vec_index_0 e)
  show "the (floor_arr u') ! 0 = floor_view (entry_vec u) ! 0"
    by (simp add: o loop_vec_index_0)
  show "the (margin_trigger u') ! 0 = 0" by (simp add: o loop_vec_index_0 e)
  show "\<not> should_inject_liquidity u
      (update_floor (discount_array u ! (1 - 1)) 1 (update_ref_capital u 1 (entry_vec u)))
      (1 - 1)"
    by (rule entry_vec_no_injection [OF a])
qed

theorem index_0_not_written_witness:
  "0 < capital forced_injection \<and> 0 \<le> min_capital_req forced_injection
   \<and> min_capital_req forced_injection \<le> 1 \<and> 1 \<le> length (rr forced_injection)
   \<and> the (portfolio (run forced_injection)) ! 0 = 100
   \<and> the (ref_capital (run forced_injection)) ! 0 = 100
   \<and> the (floor_arr (run forced_injection)) ! 0 = 80
   \<and> the (margin_trigger (run forced_injection)) ! 0 = 0
   \<and> 0 < capital forced_injection_vec \<and> 0 \<le> min_capital_req forced_injection_vec
   \<and> min_capital_req forced_injection_vec \<le> 1 \<and> 1 \<le> length (rr forced_injection_vec)
   \<and> run_vec forced_injection_vec = Inr (projr (run_vec forced_injection_vec))
   \<and> the (portfolio (projr (run_vec forced_injection_vec))) ! 0 = 100
   \<and> the (ref_capital (projr (run_vec forced_injection_vec))) ! 0 = 100
   \<and> the (floor_arr (projr (run_vec forced_injection_vec))) ! 0 = 80
   \<and> the (margin_trigger (projr (run_vec forced_injection_vec))) ! 0 = 0"
proof -
  have c: "0 < capital forced_injection" "0 \<le> min_capital_req forced_injection"
    "min_capital_req forced_injection \<le> 1" "1 \<le> length (rr forced_injection)"
    "capital forced_injection = 100" "floor_view (entry forced_injection) ! 0 = 80"
    by (simp_all add: forced_injection_def entry_def Let_def)
  have d: "0 < capital forced_injection_vec" "0 \<le> min_capital_req forced_injection_vec"
    "min_capital_req forced_injection_vec \<le> 1" "1 \<le> length (rr forced_injection_vec)"
    "capital forced_injection_vec = 100" "floor_view (entry_vec forced_injection_vec) ! 0 = 80"
    by (simp_all add: forced_injection_vec_def entry_vec_def discount_array_def pow_def Let_def)
  show ?thesis
    using index_0_not_written [of forced_injection 0 forced_injection_vec
        "projr (run_vec forced_injection_vec)"]
      forced_injection_vec_run c d
    by simp
qed

end
